theory Spec2Isabelle
  imports Main "HOL-Library.Word"
begin

section \<open>Shared data: errors and Kubernetes objects\<close>

text \<open>
  Go errors are values.  The constructors below are the error shapes the three packages
  distinguish: API status errors (tested with \<open>apierrors.IsNotFound\<close>,
  \<open>apierrors.IsAlreadyExists\<close>, \<open>apierrors.IsConflict\<close>), errors the code builds itself
  with \<open>errors.New\<close> / \<open>fmt.Errorf\<close> (with or without a \<open>%v\<close>-rendered cause), and a
  run-time panic (nil dereference, index out of range).
\<close>

datatype error =
    StatusNotFound
  | StatusAlreadyExists
  | StatusConflict
  | StatusOther string
  | Errorf string
  | ErrorfV string error
  | Panic string

definition IsNotFound :: "error \<Rightarrow> bool" where
  "IsNotFound e = (case e of StatusNotFound \<Rightarrow> True | _ \<Rightarrow> False)"

definition IsAlreadyExists :: "error \<Rightarrow> bool" where
  "IsAlreadyExists e = (case e of StatusAlreadyExists \<Rightarrow> True | _ \<Rightarrow> False)"

definition IsConflict :: "error \<Rightarrow> bool" where
  "IsConflict e = (case e of StatusConflict \<Rightarrow> True | _ \<Rightarrow> False)"

text \<open>Reading a Go \<open>map[string]string\<close>: a missing key (or a nil map) yields the empty string.\<close>

definition lookup_str :: "(string \<rightharpoonup> string) \<Rightarrow> string \<Rightarrow> string" where
  "lookup_str m k = (case m k of None \<Rightarrow> [] | Some v \<Rightarrow> v)"

record Namespace =
  ns_Name :: string
  ns_UID :: string
  ns_Labels :: "string \<rightharpoonup> string"
  ns_Annotations :: "string \<rightharpoonup> string"

record VirtualCluster =
  vc_Name :: string
  vc_Namespace :: string
  vc_UID :: string
  vc_ClusterVersionName :: string

subsection \<open>Calls and runs\<close>

text \<open>
  Everything the controllers do to the outside is a call: to an API server, an informer
  cache, the scheduling engine, a helper package.  A run records its calls in order and
  the environment answers each call as a function of the calls made so far and of the
  arguments, so two calls with the same arguments may be answered differently.  A
  computation takes the calls made so far and returns its result (an error or a value)
  together with the extended calls.  \<open>andThen\<close> is sequencing with Go's
  \<open>if err != nil { return err }\<close> after the first part.
\<close>

type_synonym ('c, 'a) run = "'c list \<Rightarrow> (error + 'a) \<times> 'c list"

definition ret :: "'a \<Rightarrow> ('c, 'a) run" where
  "ret x = (\<lambda>h. (Inr x, h))"

definition throw :: "error \<Rightarrow> ('c, 'a) run" where
  "throw e = (\<lambda>h. (Inl e, h))"

definition lift :: "error + 'a \<Rightarrow> ('c, 'a) run" where
  "lift r = (\<lambda>h. (r, h))"

definition call :: "'c \<Rightarrow> ('c list \<Rightarrow> error + 'a) \<Rightarrow> ('c, 'a) run" where
  "call ev answer = (\<lambda>h. (answer h, h @ [ev]))"

definition andThen :: "('c, 'a) run \<Rightarrow> ('a \<Rightarrow> ('c, 'b) run) \<Rightarrow> ('c, 'b) run" where
  "andThen m f = (\<lambda>h. case m h of (Inl e, h') \<Rightarrow> (Inl e, h') | (Inr x, h') \<Rightarrow> f x h')"

text \<open>The calls a computation adds to the calls made before it.\<close>

definition new_calls :: "('c, 'a) run \<Rightarrow> 'c list \<Rightarrow> 'c list" where
  "new_calls m h = drop (length h) (snd (m h))"

text \<open>
  A postcondition on a run started after the calls \<open>h\<close>: the calls are only extended, and
  the result together with the added calls satisfies \<open>Q\<close>.
\<close>

definition emits ::
  "('c, 'a) run \<Rightarrow> 'c list \<Rightarrow> ((error + 'a) \<Rightarrow> 'c list \<Rightarrow> bool) \<Rightarrow> bool" where
  "emits m h Q = (\<exists>new. snd (m h) = h @ new \<and> Q (fst (m h)) new)"

section \<open>Secret encapsulation (pkg/controller/secret/secret.go)\<close>

record RsaPrivateKey =
  PublicKey :: string
  PrivateExponent :: string

record CrtKeyPair =
  Crt :: string
  Key :: RsaPrivateKey

record Secret =
  sec_Kind :: string
  sec_APIVersion :: string
  sec_Name :: string
  sec_Namespace :: string
  sec_Type :: string
  sec_Data :: "string \<rightharpoonup> string"

text \<open>Constants of \<open>k8s.io/api/core/v1\<close> used by the package.\<close>

definition SecretTypeOpaque :: string where "SecretTypeOpaque = ''Opaque''"
definition SecretTypeTLS :: string where "SecretTypeTLS = ''kubernetes.io/tls''"
definition TLSCertKey :: string where "TLSCertKey = ''tls.crt''"
definition TLSPrivateKeyKey :: string where "TLSPrivateKeyKey = ''tls.key''"
definition SchemeGroupVersion_String :: string where "SchemeGroupVersion_String = ''v1''"

definition RootCASecretName :: string where "RootCASecretName = ''root-ca''"
definition APIServerCASecretName :: string where "APIServerCASecretName = ''apiserver-ca''"
definition ETCDCASecretName :: string where "ETCDCASecretName = ''etcd-ca''"
definition FrontProxyCASecretName :: string where "FrontProxyCASecretName = ''front-proxy-ca''"
definition ControllerManagerSecretName :: string where
  "ControllerManagerSecretName = ''controller-manager-kubeconfig''"
definition AdminSecretName :: string where "AdminSecretName = ''admin-kubeconfig''"
definition ServiceAccountSecretName :: string where "ServiceAccountSecretName = ''serviceaccount-rsa''"

text \<open>
  The PEM encoders live in \<open>pkg/util/pki\<close> and \<open>pkg/controller/pki\<close>; they are taken as
  parameters.  Only \<open>EncodePublicKeyPEM\<close> can fail.
\<close>

record pem_codec =
  EncodePublicKeyPEM :: "string \<Rightarrow> error + string"
  EncodePrivateKeyPEM :: "RsaPrivateKey \<Rightarrow> string"
  EncodeCertPEM :: "string \<Rightarrow> string"

definition RsaKeyToSecret ::
  "pem_codec \<Rightarrow> string \<Rightarrow> string \<Rightarrow> RsaPrivateKey \<Rightarrow> error + Secret" where
  "RsaKeyToSecret pem name namespace rsaKey =
     (case EncodePublicKeyPEM pem (PublicKey rsaKey) of
        Inl err \<Rightarrow> Inl err
      | Inr encodedPubKey \<Rightarrow>
          Inr \<lparr> sec_Kind = ''Secret'',
                sec_APIVersion = SchemeGroupVersion_String,
                sec_Name = name,
                sec_Namespace = namespace,
                sec_Type = SecretTypeTLS,
                sec_Data = [TLSCertKey \<mapsto> encodedPubKey,
                            TLSPrivateKeyKey \<mapsto> EncodePrivateKeyPEM pem rsaKey] \<rparr>)"

definition CrtKeyPairToSecret :: "pem_codec \<Rightarrow> string \<Rightarrow> string \<Rightarrow> CrtKeyPair \<Rightarrow> Secret" where
  "CrtKeyPairToSecret pem name namespace ckp =
     \<lparr> sec_Kind = ''Secret'',
       sec_APIVersion = SchemeGroupVersion_String,
       sec_Name = name,
       sec_Namespace = namespace,
       sec_Type = SecretTypeTLS,
       sec_Data = [TLSCertKey \<mapsto> EncodeCertPEM pem (Crt ckp),
                   TLSPrivateKeyKey \<mapsto> EncodePrivateKeyPEM pem (Key ckp)] \<rparr>"

definition KubeconfigToSecret :: "string \<Rightarrow> string \<Rightarrow> string \<Rightarrow> Secret" where
  "KubeconfigToSecret name namespace cfgContent =
     \<lparr> sec_Kind = ''Secret'',
       sec_APIVersion = SchemeGroupVersion_String,
       sec_Name = name,
       sec_Namespace = namespace,
       sec_Type = SecretTypeOpaque,
       sec_Data = [name \<mapsto> cfgContent] \<rparr>"

text \<open>
  The two shapes the specification names, as predicates on a secret: the TLS shape has
  exactly the fields \<open>tls.crt\<close> and \<open>tls.key\<close>; the opaque shape has one field, keyed by the
  secret's own name.
\<close>

definition tls_shape :: "Secret \<Rightarrow> string \<Rightarrow> string \<Rightarrow> bool" where
  "tls_shape s crt key =
     (sec_Type s = SecretTypeTLS \<and> sec_Data s TLSCertKey = Some crt \<and>
      sec_Data s TLSPrivateKeyKey = Some key \<and> dom (sec_Data s) = {TLSCertKey, TLSPrivateKeyKey})"

definition opaque_shape :: "Secret \<Rightarrow> bool" where
  "opaque_shape s = (sec_Type s = SecretTypeOpaque \<and> dom (sec_Data s) = {sec_Name s})"

section \<open>Native provisioner (pkg/controller/controllers/provisioner/provisioner_native.go)\<close>

subsection \<open>Formatting and the etcd peer list\<close>

type_synonym int32 = "32 word"

definition digit_char :: "nat \<Rightarrow> char" where
  "digit_char d = ''0123456789'' ! (d mod 10)"

fun dec_nat :: "nat \<Rightarrow> string" where
  "dec_nat n = (if n < 10 then [digit_char n] else dec_nat (n div 10) @ [digit_char (n mod 10)])"

text \<open>The verb \<open>%d\<close> of \<open>fmt.Sprintf\<close> on an integer.\<close>

definition fmt_d :: "int \<Rightarrow> string" where
  "fmt_d n = (if n < 0 then CHR ''-'' # dec_nat (nat (- n)) else dec_nat (nat n))"

definition DefaultETCDPeerPort :: int where
  "DefaultETCDPeerPort = 2380"

definition ComponentPollPeriodSec :: int where
  "ComponentPollPeriodSec = 2"

text \<open>\<open>fmt.Sprintf("%s-%d=https://%s-%d.%s:%d", stsName, i, stsName, i, svcName, port)\<close>\<close>

definition peerAddr_fmt :: "string \<Rightarrow> int \<Rightarrow> string \<Rightarrow> int \<Rightarrow> string" where
  "peerAddr_fmt stsName i svcName port =
     stsName @ ''-'' @ fmt_d i @ ''=https://'' @ stsName @ ''-'' @ fmt_d i @ ''.'' @ svcName @
     '':'' @ fmt_d port"

text \<open>
  The \<open>for\<close> loop of \<open>genInitialClusterArgs\<close> over the \<open>int32\<close> counter \<open>i\<close>, with its
  \<open>break\<close> at the last index.  Comparison is signed; \<open>replicas - 1\<close> and \<open>i + 1\<close> are the
  wrapping machine operations.
\<close>

function genInitialClusterArgs_loop ::
  "int32 \<Rightarrow> int32 \<Rightarrow> string \<Rightarrow> string \<Rightarrow> string \<Rightarrow> string" where
  "genInitialClusterArgs_loop i replicas stsName svcName argsVal =
     (if i <s replicas then
        (let peerAddr = peerAddr_fmt stsName (sint i) svcName DefaultETCDPeerPort in
         if i = replicas - 1 then argsVal @ peerAddr
         else genInitialClusterArgs_loop (i + 1) replicas stsName svcName
                (argsVal @ peerAddr @ '',''))
      else argsVal)"
  by pat_completeness auto
termination
proof (relation "measure (\<lambda>(i, r, _). nat (sint r - sint i))", goal_cases)
  case 1
  show ?case by simp
next
  case (2 i replicas stsName svcName argsVal peerAddr)
  have lt: "sint i < sint replicas" using 2(1) by (simp add: word_sless_alt)
  have ub: "sint replicas < 2 ^ 31" using sint_lt [of replicas] by simp
  have lb: "- (2 ^ 31) \<le> sint i" using sint_ge [of i] by simp
  have "sint (i + 1) = signed_take_bit 31 (sint i + 1)"
    by (simp add: sint_word_add)
  also have "\<dots> = sint i + 1"
    using lt ub lb by (intro signed_take_bit_int_eq_self) auto
  finally show ?case using lt by simp
qed

definition genInitialClusterArgs :: "int32 \<Rightarrow> string \<Rightarrow> string \<Rightarrow> string" where
  "genInitialClusterArgs replicas stsName svcName =
     genInitialClusterArgs_loop 0 replicas stsName svcName []"

text \<open>
  The peer list as the specification words it: the peers
  \<open><sts>-<i>=https://<sts>-<i>.<svc>:2380\<close> for \<open>i = 0, \<dots>, n - 1\<close>, in index order,
  joined by commas.
\<close>

definition spec_peer :: "string \<Rightarrow> string \<Rightarrow> nat \<Rightarrow> string" where
  "spec_peer sts svc i =
     sts @ ''-'' @ dec_nat i @ ''=https://'' @ sts @ ''-'' @ dec_nat i @ ''.'' @ svc @ '':2380''"

fun join_comma :: "string list \<Rightarrow> string" where
  "join_comma [] = []"
| "join_comma [x] = x"
| "join_comma (x # y # ys) = x @ '','' @ join_comma (y # ys)"

definition spec_initial_cluster :: "nat \<Rightarrow> string \<Rightarrow> string \<Rightarrow> string" where
  "spec_initial_cluster n sts svc = join_comma (map (spec_peer sts svc) [0..<n])"

subsection \<open>Templates\<close>

record Service =
  svc_Name :: string
  svc_Namespace :: string
  svc_Type :: string

text \<open>
  Of a StatefulSet the provisioner reads and writes the name, the namespace, the replica
  count (a pointer) and the argument list of each container of the pod template.
\<close>

record StatefulSet =
  sts_Name :: string
  sts_Namespace :: string
  sts_Replicas :: "int32 option"
  sts_Containers :: "string list list"

record StatefulSetSvcBundle =
  bdl_Name :: string
  bdl_StatefulSet :: "StatefulSet option"
  bdl_Service :: "Service option"

record ClusterVersion =
  cv_ETCD :: "StatefulSetSvcBundle option"
  cv_APIServer :: "StatefulSetSvcBundle option"
  cv_ControllerManager :: "StatefulSetSvcBundle option"

definition ServiceTypeClusterIP :: string where "ServiceTypeClusterIP = ''ClusterIP''"

definition nil_deref :: error where
  "nil_deref = Panic ''invalid memory address or nil pointer dereference''"

definition index_out_of_range :: error where
  "index_out_of_range = Panic ''index out of range''"

definition complementETCDTemplate ::
  "string \<Rightarrow> StatefulSetSvcBundle \<Rightarrow> error + StatefulSetSvcBundle" where
  "complementETCDTemplate vcns etcdBdl =
     (case bdl_StatefulSet etcdBdl of
        None \<Rightarrow> Inl nil_deref
      | Some sts \<Rightarrow>
     (case bdl_Service etcdBdl of
        None \<Rightarrow> Inl nil_deref
      | Some svc \<Rightarrow>
     (case sts_Containers sts of
        [] \<Rightarrow> Inl index_out_of_range
      | args # others \<Rightarrow>
     (case sts_Replicas sts of
        None \<Rightarrow> Inl nil_deref
      | Some replicas \<Rightarrow>
          (let icaVal = genInitialClusterArgs replicas (sts_Name sts) (svc_Name svc);
               args' = args @ [''--initial-cluster'', icaVal]
           in Inr (etcdBdl
                \<lparr> bdl_StatefulSet :=
                    Some (sts \<lparr> sts_Namespace := vcns, sts_Containers := args' # others \<rparr>),
                  bdl_Service := Some (svc \<lparr> svc_Namespace := vcns \<rparr>) \<rparr>))))))"

definition complementAPIServerTemplate ::
  "string \<Rightarrow> StatefulSetSvcBundle \<Rightarrow> error + StatefulSetSvcBundle" where
  "complementAPIServerTemplate vcns apiserverBdl =
     (case bdl_StatefulSet apiserverBdl of
        None \<Rightarrow> Inl nil_deref
      | Some sts \<Rightarrow>
     (case bdl_Service apiserverBdl of
        None \<Rightarrow> Inl nil_deref
      | Some svc \<Rightarrow>
          Inr (apiserverBdl
                \<lparr> bdl_StatefulSet := Some (sts \<lparr> sts_Namespace := vcns \<rparr>),
                  bdl_Service := Some (svc \<lparr> svc_Namespace := vcns \<rparr>) \<rparr>)))"

definition complementCtrlMgrTemplate ::
  "string \<Rightarrow> StatefulSetSvcBundle \<Rightarrow> error + StatefulSetSvcBundle" where
  "complementCtrlMgrTemplate vcns ctrlMgrBdl =
     (case bdl_StatefulSet ctrlMgrBdl of
        None \<Rightarrow> Inl nil_deref
      | Some sts \<Rightarrow>
          Inr (ctrlMgrBdl \<lparr> bdl_StatefulSet := Some (sts \<lparr> sts_Namespace := vcns \<rparr>) \<rparr>))"

subsection \<open>Calls into the super cluster and the PKI helpers\<close>

text \<open>
  The provisioner calls the super cluster through the controller-runtime client embedded
  in \<open>Native\<close> (its verbs are listed in full), and helper packages of the repository.
\<close>

datatype verb = VerbGet | VerbList | VerbCreate | VerbUpdate | VerbPatch | VerbDelete

datatype kobject =
    ObjClusterVersion string
  | ObjService Service
  | ObjStatefulSet StatefulSet
  | ObjSecret Secret

datatype pcall =
    ClientCall verb kobject
  | CallCreateRootNS VirtualCluster
  | CallGetSvcClusterIP string string
  | CallWaitStatefulSetReady string string int int
  | CallNewCertificateAuthority
  | CallNewEtcdServerCertAndKey "string list"
  | CallNewFrontProxyClientCertAndKey
  | CallNewAPIServerCrtAndKey string string
  | CallGenerateKubeconfig string string string "string list"
  | CallNewServiceAccountSigningKey

record ClusterCAGroup =
  RootCA :: CrtKeyPair
  APIServer :: CrtKeyPair
  ETCD :: CrtKeyPair
  FrontProxy :: CrtKeyPair
  CtrlMgrKbCfg :: string
  AdminKbCfg :: string
  ServiceAccountPrivateKey :: RsaPrivateKey

text \<open>
  The receiver \<open>Native\<close>: its client (\<open>Get\<close> of a ClusterVersion, \<open>Create\<close>), its timeout
  (a \<open>time.Duration\<close>, in nanoseconds), and the functions of the packages \<open>kubeutil\<close>,
  \<open>conversion\<close>, \<open>pkiutil\<close>, \<open>vcpki\<close>, \<open>kubeconfig\<close> and of the API type
  \<open>ClusterVersion\<close>, none of which is part of this file.  \<open>NewCertificateAuthority\<close> returns
  a \<open>crypto.Signer\<close>: \<open>None\<close> stands for a signer that is not an RSA key.
  \<open>Create\<close> is taken to return its error only: of a created object the provisioner later
  reads just the name, the namespace and the service type, as it submitted them.
  \<open>GetSvcClusterIP\<close> returns a string and an error, as in Go.  Log lines are left out.
\<close>

record Native =
  client_Get_CV :: "pcall list \<Rightarrow> string \<Rightarrow> error + ClusterVersion"
  client_Create :: "pcall list \<Rightarrow> kobject \<Rightarrow> error option"
  ProvisionerTimeout :: int
  CreateRootNS :: "pcall list \<Rightarrow> VirtualCluster \<Rightarrow> error + string"
  GetSvcClusterIP :: "pcall list \<Rightarrow> string \<Rightarrow> string \<Rightarrow> string \<times> error option"
  WaitStatefulSetReady :: "pcall list \<Rightarrow> string \<Rightarrow> string \<Rightarrow> int \<Rightarrow> int \<Rightarrow> error option"
  ToClusterKey :: "VirtualCluster \<Rightarrow> string"
  GetEtcdServers :: "ClusterVersion \<Rightarrow> string list"
  GetEtcdDomain :: "ClusterVersion \<Rightarrow> string"
  GetAPIServerDomain :: "ClusterVersion \<Rightarrow> string \<Rightarrow> string"
  NewCertificateAuthority :: "pcall list \<Rightarrow> error + (string \<times> RsaPrivateKey option)"
  NewEtcdServerCertAndKey :: "pcall list \<Rightarrow> CrtKeyPair \<Rightarrow> string list \<Rightarrow> error + CrtKeyPair"
  NewFrontProxyClientCertAndKey :: "pcall list \<Rightarrow> CrtKeyPair \<Rightarrow> error + CrtKeyPair"
  NewAPIServerCrtAndKey ::
    "pcall list \<Rightarrow> CrtKeyPair \<Rightarrow> VirtualCluster \<Rightarrow> string \<Rightarrow> string \<Rightarrow> error + CrtKeyPair"
  GenerateKubeconfig ::
    "pcall list \<Rightarrow> string \<Rightarrow> string \<Rightarrow> string \<Rightarrow> string list \<Rightarrow> CrtKeyPair \<Rightarrow> error + string"
  NewServiceAccountSigningKey :: "pcall list \<Rightarrow> error + RsaPrivateKey"
  pem :: pem_codec

type_synonym 'a prov = "(pcall, 'a) run"

text \<open>\<open>mpn.Create(ctx, obj)\<close>: the call is recorded, its error (or nil) is the value.\<close>

definition mpn_Create :: "Native \<Rightarrow> kobject \<Rightarrow> error option prov" where
  "mpn_Create mpn obj = call (ClientCall VerbCreate obj) (\<lambda>h. Inr (client_Create mpn h obj))"

text \<open>Go's integer division truncates towards zero.\<close>

definition go_div :: "int \<Rightarrow> int \<Rightarrow> int" where
  "go_div a b = sgn a * sgn b * (\<bar>a\<bar> div \<bar>b\<bar>)"

definition time_Second :: int where
  "time_Second = 1000000000"

subsection \<open>deployComponent\<close>

definition deployComponent ::
  "Native \<Rightarrow> VirtualCluster \<Rightarrow> StatefulSetSvcBundle option \<Rightarrow> unit prov" where
  "deployComponent mpn vc ssBdlPtr =
     (case ssBdlPtr of
        None \<Rightarrow> throw nil_deref
      | Some ssBdl0 \<Rightarrow>
          (let ns = ToClusterKey mpn vc in
           andThen
             (lift (if bdl_Name ssBdl0 = ''etcd'' then complementETCDTemplate ns ssBdl0
                    else if bdl_Name ssBdl0 = ''apiserver'' then complementAPIServerTemplate ns ssBdl0
                    else if bdl_Name ssBdl0 = ''controller-manager''
                      then complementCtrlMgrTemplate ns ssBdl0
                    else Inl (Errorf (''try to deploy unknown component: '' @ bdl_Name ssBdl0))))
             (\<lambda>ssBdl.
                (case bdl_StatefulSet ssBdl of
                   None \<Rightarrow> throw nil_deref
                 | Some sts \<Rightarrow>
                     andThen
                       (andThen (mpn_Create mpn (ObjStatefulSet sts))
                          (\<lambda>err. case err of
                                    Some e \<Rightarrow> if \<not> IsAlreadyExists e then throw e else ret ()
                                  | None \<Rightarrow> ret ()))
                       (\<lambda>_. andThen
                          (case bdl_Service ssBdl of
                             None \<Rightarrow> ret ()
                           | Some svc \<Rightarrow>
                               if \<not> (bdl_Name ssBdl = ''apiserver'' \<and>
                                      svc_Type svc = ServiceTypeClusterIP)
                               then andThen (mpn_Create mpn (ObjService svc))
                                      (\<lambda>err. case err of
                                                Some e \<Rightarrow>
                                                  if \<not> IsAlreadyExists e then throw e else ret ()
                                              | None \<Rightarrow> ret ())
                               else ret ())
                          (\<lambda>_. call (CallWaitStatefulSetReady ns (bdl_Name ssBdl)
                                       (go_div (ProvisionerTimeout mpn) time_Second)
                                       ComponentPollPeriodSec)
                                  (\<lambda>h. case WaitStatefulSetReady mpn h ns (bdl_Name ssBdl)
                                               (go_div (ProvisionerTimeout mpn) time_Second)
                                               ComponentPollPeriodSec of
                                          Some err \<Rightarrow> Inl err
                                        | None \<Rightarrow> Inr ())))))))"

subsection \<open>createPKISecrets and createPKI\<close>

text \<open>The \<open>for _, srt := range secrets\<close> loop.\<close>

fun createPKISecrets_loop :: "Native \<Rightarrow> Secret list \<Rightarrow> unit prov" where
  "createPKISecrets_loop mpn [] = ret ()"
| "createPKISecrets_loop mpn (srt # rest) =
     andThen
       (andThen (mpn_Create mpn (ObjSecret srt))
          (\<lambda>err. case err of
                    Some e \<Rightarrow> if \<not> IsAlreadyExists e then throw e else ret ()
                  | None \<Rightarrow> ret ()))
       (\<lambda>_. createPKISecrets_loop mpn rest)"

definition createPKISecrets :: "Native \<Rightarrow> ClusterCAGroup \<Rightarrow> string \<Rightarrow> unit prov" where
  "createPKISecrets mpn caGroup namespace =
     (let rootSrt = CrtKeyPairToSecret (pem mpn) RootCASecretName namespace (RootCA caGroup);
          apiserverSrt =
            CrtKeyPairToSecret (pem mpn) APIServerCASecretName namespace (APIServer caGroup);
          etcdSrt = CrtKeyPairToSecret (pem mpn) ETCDCASecretName namespace (ETCD caGroup);
          frontProxySrt =
            CrtKeyPairToSecret (pem mpn) FrontProxyCASecretName namespace (FrontProxy caGroup);
          ctrlMgrSrt =
            KubeconfigToSecret ControllerManagerSecretName namespace (CtrlMgrKbCfg caGroup);
          adminSrt = KubeconfigToSecret AdminSecretName namespace (AdminKbCfg caGroup)
      in case RsaKeyToSecret (pem mpn) ServiceAccountSecretName namespace
                (ServiceAccountPrivateKey caGroup) of
           Inl err \<Rightarrow> throw err
         | Inr svcActSrt \<Rightarrow>
             createPKISecrets_loop mpn
               [rootSrt, apiserverSrt, etcdSrt, frontProxySrt, ctrlMgrSrt, adminSrt, svcActSrt])"

definition createPKI ::
  "Native \<Rightarrow> VirtualCluster \<Rightarrow> ClusterVersion \<Rightarrow> bool \<Rightarrow> unit prov" where
  "createPKI mpn vc cv isClusterIP =
     (let ns = ToClusterKey mpn vc in
      andThen (call CallNewCertificateAuthority (NewCertificateAuthority mpn))
      (\<lambda>(rootCACrt, rootKey).
         case rootKey of
           None \<Rightarrow> throw (Errorf ''fail to assert rsa PrivateKey'')
         | Some rootRsaKey \<Rightarrow>
      (let rootCAPair = \<lparr> Crt = rootCACrt, Key = rootRsaKey \<rparr>;
           etcdDomains = GetEtcdServers mpn cv @ [GetEtcdDomain mpn cv] in
      andThen (call (CallNewEtcdServerCertAndKey etcdDomains)
                 (\<lambda>h. NewEtcdServerCertAndKey mpn h rootCAPair etcdDomains))
      (\<lambda>etcdCAPair.
      andThen (call CallNewFrontProxyClientCertAndKey
                 (\<lambda>h. NewFrontProxyClientCertAndKey mpn h rootCAPair))
      (\<lambda>frontProxyCAPair.
      andThen
        (if isClusterIP then
           (case cv_APIServer cv of
              None \<Rightarrow> throw nil_deref
            | Some apiserver \<Rightarrow>
           (case bdl_Service apiserver of
              None \<Rightarrow> throw nil_deref
            | Some svc \<Rightarrow>
                call (CallGetSvcClusterIP ns (svc_Name svc))
                  (\<lambda>h. Inr (fst (GetSvcClusterIP mpn h ns (svc_Name svc))))))
         else ret [])
      (\<lambda>clusterIP.
      (let apiserverDomain = GetAPIServerDomain mpn cv ns in
      andThen (call (CallNewAPIServerCrtAndKey apiserverDomain clusterIP)
                 (\<lambda>h. NewAPIServerCrtAndKey mpn h rootCAPair vc apiserverDomain clusterIP))
      (\<lambda>apiserverCAPair.
      (let finalAPIAddress = (if clusterIP \<noteq> [] then clusterIP else apiserverDomain) in
      andThen (call (CallGenerateKubeconfig ''system:kube-controller-manager'' (vc_Name vc)
                       finalAPIAddress [])
                 (\<lambda>h. GenerateKubeconfig mpn h ''system:kube-controller-manager'' (vc_Name vc)
                         finalAPIAddress [] rootCAPair))
      (\<lambda>ctrlmgrKbCfg.
      andThen (call (CallGenerateKubeconfig ''admin'' (vc_Name vc) finalAPIAddress
                       [''system:masters''])
                 (\<lambda>h. GenerateKubeconfig mpn h ''admin'' (vc_Name vc) finalAPIAddress
                         [''system:masters''] rootCAPair))
      (\<lambda>adminKbCfg.
      andThen (call CallNewServiceAccountSigningKey (NewServiceAccountSigningKey mpn))
      (\<lambda>svcAcctCAPair.
         createPKISecrets mpn
           \<lparr> RootCA = rootCAPair, APIServer = apiserverCAPair, ETCD = etcdCAPair,
             FrontProxy = frontProxyCAPair, CtrlMgrKbCfg = ctrlmgrKbCfg,
             AdminKbCfg = adminKbCfg, ServiceAccountPrivateKey = svcAcctCAPair \<rparr>
           ns))))))))))))"

subsection \<open>CreateVirtualCluster\<close>

definition CreateVirtualCluster :: "Native \<Rightarrow> VirtualCluster \<Rightarrow> unit prov" where
  "CreateVirtualCluster mpn vc =
     andThen
       (call (ClientCall VerbGet (ObjClusterVersion (vc_ClusterVersionName vc)))
          (\<lambda>h. case client_Get_CV mpn h (vc_ClusterVersionName vc) of
                  Inl err \<Rightarrow>
                    Inl (Errorf (''desired ClusterVersion '' @ vc_ClusterVersionName vc @
                                 '' not found''))
                | Inr cv \<Rightarrow> Inr cv))
     (\<lambda>cv.
     andThen (call (CallCreateRootNS vc) (\<lambda>h. CreateRootNS mpn h vc))
     (\<lambda>_.
       (case cv_APIServer cv of
          None \<Rightarrow> throw nil_deref
        | Some apiserver \<Rightarrow>
       (let isClusterIP =
              (case bdl_Service apiserver of
                 None \<Rightarrow> False
               | Some svc \<Rightarrow> svc_Type svc = ServiceTypeClusterIP) in
        andThen
          (if isClusterIP then
             andThen (lift (complementAPIServerTemplate (ToClusterKey mpn vc) apiserver))
             (\<lambda>apiserver'.
                (case bdl_Service apiserver' of
                   None \<Rightarrow> throw nil_deref
                 | Some svc \<Rightarrow>
                     andThen
                       (andThen (mpn_Create mpn (ObjService svc))
                          (\<lambda>err. case err of
                                    Some e \<Rightarrow> if \<not> IsAlreadyExists e then throw e else ret ()
                                  | None \<Rightarrow> ret ()))
                       (\<lambda>_. ret (cv \<lparr> cv_APIServer := Some apiserver' \<rparr>))))
           else ret cv)
        (\<lambda>cv.
        andThen (createPKI mpn vc cv isClusterIP)
        (\<lambda>_.
        andThen (deployComponent mpn vc (cv_ETCD cv))
        (\<lambda>_.
        andThen (deployComponent mpn vc (cv_APIServer cv))
        (\<lambda>_. deployComponent mpn vc (cv_ControllerManager cv)))))))))"

definition DeleteVirtualCluster :: "Native \<Rightarrow> VirtualCluster \<Rightarrow> unit prov" where
  "DeleteVirtualCluster mpn vc = ret ()"

definition GetProvisioner :: string where
  "GetProvisioner = ''native''"

subsection \<open>The provisioning contract, as the specification words it\<close>

text \<open>
  Running a list of steps in order, stopping at the first error.
\<close>

fun seq_steps :: "unit prov list \<Rightarrow> unit prov" where
  "seq_steps [] = ret ()"
| "seq_steps (s # ss) = andThen s (\<lambda>_. seq_steps ss)"

text \<open>``The ClusterVersion's API server service type is ClusterIP.''\<close>

definition cv_isClusterIP :: "ClusterVersion \<Rightarrow> bool" where
  "cv_isClusterIP cv =
     (case cv_APIServer cv of
        None \<Rightarrow> False
      | Some apiserver \<Rightarrow>
          (case bdl_Service apiserver of
             None \<Rightarrow> False
           | Some svc \<Rightarrow> svc_Type svc = ServiceTypeClusterIP))"

text \<open>
  Create-or-skip: one \<open>Create\<close> call; \<open>AlreadyExists\<close> counts as success, any other error
  is returned.
\<close>

definition create_or_skip :: "Native \<Rightarrow> kobject \<Rightarrow> unit prov" where
  "create_or_skip mpn obj =
     (\<lambda>h. case client_Create mpn h obj of
             None \<Rightarrow> (Inr (), h @ [ClientCall VerbCreate obj])
           | Some e \<Rightarrow>
               if IsAlreadyExists e then (Inr (), h @ [ClientCall VerbCreate obj])
               else (Inl e, h @ [ClientCall VerbCreate obj]))"

text \<open>Step 1: create the root namespace.\<close>

definition step_root_namespace :: "Native \<Rightarrow> VirtualCluster \<Rightarrow> unit prov" where
  "step_root_namespace mpn vc =
     (\<lambda>h. case CreateRootNS mpn h vc of
             Inl e \<Rightarrow> (Inl e, h @ [CallCreateRootNS vc])
           | Inr _ \<Rightarrow> (Inr (), h @ [CallCreateRootNS vc]))"

text \<open>
  Step 2: if the API server service type is ClusterIP, create the API server service (in
  the tenant's root namespace) now; otherwise do nothing.  A ClusterVersion without an
  API server bundle, or a ClusterIP bundle without a StatefulSet, is a nil dereference.
\<close>

definition step_api_service :: "Native \<Rightarrow> VirtualCluster \<Rightarrow> ClusterVersion \<Rightarrow> unit prov" where
  "step_api_service mpn vc cv =
     (case cv_APIServer cv of
        None \<Rightarrow> throw nil_deref
      | Some apiserver \<Rightarrow>
          if cv_isClusterIP cv then
            (case complementAPIServerTemplate (ToClusterKey mpn vc) apiserver of
               Inl e \<Rightarrow> throw e
             | Inr apiserver' \<Rightarrow>
                 (case bdl_Service apiserver' of
                    None \<Rightarrow> throw nil_deref
                  | Some svc \<Rightarrow> create_or_skip mpn (ObjService svc)))
          else ret ())"

text \<open>The ClusterVersion as step 2 leaves it (the API server bundle moved to the root namespace).\<close>

definition cv_after_service ::
  "Native \<Rightarrow> VirtualCluster \<Rightarrow> ClusterVersion \<Rightarrow> ClusterVersion" where
  "cv_after_service mpn vc cv =
     (if cv_isClusterIP cv then
        (case cv_APIServer cv of
           None \<Rightarrow> cv
         | Some apiserver \<Rightarrow>
             (case complementAPIServerTemplate (ToClusterKey mpn vc) apiserver of
                Inl _ \<Rightarrow> cv
              | Inr apiserver' \<Rightarrow> cv \<lparr> cv_APIServer := Some apiserver' \<rparr>))
      else cv)"

text \<open>
  The fixed order: root namespace; API server service (ClusterIP only); PKI; etcd;
  API server; controller-manager.
\<close>

definition provisioning_steps ::
  "Native \<Rightarrow> VirtualCluster \<Rightarrow> ClusterVersion \<Rightarrow> unit prov list" where
  "provisioning_steps mpn vc cv =
     (let cv' = cv_after_service mpn vc cv in
      [step_root_namespace mpn vc,
       step_api_service mpn vc cv,
       createPKI mpn vc cv' (cv_isClusterIP cv),
       deployComponent mpn vc (cv_ETCD cv'),
       deployComponent mpn vc (cv_APIServer cv'),
       deployComponent mpn vc (cv_ControllerManager cv')])"

text \<open>
  The same super cluster, except that every \<open>Create\<close> it would answer with
  \<open>AlreadyExists\<close> is answered with success.
\<close>

definition exists_as_created :: "Native \<Rightarrow> Native" where
  "exists_as_created mpn =
     mpn \<lparr> client_Create :=
             (\<lambda>h obj. case client_Create mpn h obj of
                         None \<Rightarrow> None
                       | Some e \<Rightarrow> if IsAlreadyExists e then None else Some e) \<rparr>"

text \<open>A call that is not an update, patch or delete through the client.\<close>

fun read_or_create :: "pcall \<Rightarrow> bool" where
  "read_or_create (ClientCall v obj) = (v = VerbGet \<or> v = VerbList \<or> v = VerbCreate)"
| "read_or_create _ = True"

text \<open>
  The write policy of a computation: started after any calls \<open>h\<close>, it only extends them,
  it issues no update, patch or delete, and a \<open>Create\<close> the super cluster answers with an
  error other than \<open>AlreadyExists\<close> is its last call and its result.
\<close>

definition create_discipline :: "Native \<Rightarrow> 'a prov \<Rightarrow> bool" where
  "create_discipline mpn m =
     (\<forall>h. \<exists>new. snd (m h) = h @ new \<and> list_all read_or_create new \<and>
        (\<forall>pre obj post e.
           new = pre @ ClientCall VerbCreate obj # post \<longrightarrow>
           client_Create mpn (h @ pre) obj = Some e \<longrightarrow> \<not> IsAlreadyExists e \<longrightarrow>
           post = [] \<and> fst (m h) = Inl e))"

text \<open>
  The server address of the kubeconfigs: the cluster IP obtained for the API server
  service when it is not empty, else the API server DNS name derived for the root
  namespace.  The cluster IP is asked for (only when the service type is ClusterIP) after
  the root CA, the etcd pair and the front-proxy pair have been made.
\<close>

definition pki_prefix_calls :: "Native \<Rightarrow> ClusterVersion \<Rightarrow> pcall list" where
  "pki_prefix_calls mpn cv =
     [CallNewCertificateAuthority,
      CallNewEtcdServerCertAndKey (GetEtcdServers mpn cv @ [GetEtcdDomain mpn cv]),
      CallNewFrontProxyClientCertAndKey]"

definition obtained_cluster_ip ::
  "Native \<Rightarrow> VirtualCluster \<Rightarrow> ClusterVersion \<Rightarrow> bool \<Rightarrow> pcall list \<Rightarrow> string" where
  "obtained_cluster_ip mpn vc cv isClusterIP h =
     (if isClusterIP then
        (case cv_APIServer cv of
           None \<Rightarrow> []
         | Some apiserver \<Rightarrow>
             (case bdl_Service apiserver of
                None \<Rightarrow> []
              | Some svc \<Rightarrow>
                  fst (GetSvcClusterIP mpn (h @ pki_prefix_calls mpn cv) (ToClusterKey mpn vc)
                         (svc_Name svc))))
      else [])"

definition spec_server_address ::
  "Native \<Rightarrow> VirtualCluster \<Rightarrow> ClusterVersion \<Rightarrow> bool \<Rightarrow> pcall list \<Rightarrow> string" where
  "spec_server_address mpn vc cv isClusterIP h =
     (let clusterIP = obtained_cluster_ip mpn vc cv isClusterIP h in
      if clusterIP \<noteq> [] then clusterIP
      else GetAPIServerDomain mpn cv (ToClusterKey mpn vc))"

text \<open>The kubeconfigs generated in a run: user and server address of each call, in order.\<close>

fun kubeconfig_calls :: "pcall list \<Rightarrow> (string \<times> string) list" where
  "kubeconfig_calls [] = []"
| "kubeconfig_calls (CallGenerateKubeconfig user cluster server groups # evs) =
     (user, server) # kubeconfig_calls evs"
| "kubeconfig_calls (_ # evs) = kubeconfig_calls evs"

definition client_only :: "pcall list \<Rightarrow> bool" where
  "client_only evs = list_all (\<lambda>ev. \<exists>v obj. ev = ClientCall v obj) evs"

text \<open>
  What a run of \<open>createPKI\<close> may have generated: no kubeconfig yet, the
  controller-manager one, or both, each for the server address \<open>addr\<close>; and both if the
  run succeeded.
\<close>

definition kc_post :: "string \<Rightarrow> (error + unit) \<Rightarrow> pcall list \<Rightarrow> bool" where
  "kc_post addr r new =
     (let kc = kubeconfig_calls new in
      (kc = [] \<or> kc = [(''system:kube-controller-manager'', addr)] \<or>
       kc = [(''system:kube-controller-manager'', addr), (''admin'', addr)]) \<and>
      (r = Inr () \<longrightarrow>
       kc = [(''system:kube-controller-manager'', addr), (''admin'', addr)]))"

section \<open>Namespace patroller (package namespace, the second half of pkg/controller/secret/secret.go)\<close>

text \<open>\<open>metav1.Preconditions\<close> and \<open>metav1.DeleteOptions\<close>, with the fields the patroller sets.\<close>

record Preconditions =
  pre_UID :: "string option"

record DeleteOptions =
  do_Preconditions :: "Preconditions option"

definition NewUIDPreconditions :: "string \<Rightarrow> Preconditions" where
  "NewUIDPreconditions uid = \<lparr> pre_UID = Some uid \<rparr>"

record ClusterObject =
  co_Object :: Namespace
  co_OwnerCluster :: string
  co_Key :: string

datatype ncall =
    CallListerGetVC string string
  | CallClientGetVC string string
  | CallNamespaceDelete string DeleteOptions
  | CallRequeueObject string Namespace
  | CallGetVirtualClusterObject string
  | CallMetricInc string

text \<open>
  The patroller's \<open>controller\<close>: the informer cache of VirtualClusters (\<open>vcLister\<close>), the
  client of the authoritative API server (\<open>vcClient\<close>), the super cluster's namespace
  client, the multi-cluster controller, and the functions and annotation keys of the
  packages \<open>constants\<close>, \<open>conversion\<close> and \<open>util\<close>, which are not part of this file.
\<close>

record patrol_controller =
  LabelVCName :: string
  LabelVCNamespace :: string
  LabelVCUID :: string
  LabelUID :: string
  LabelVCRootNS :: string
  vcLister_Get :: "ncall list \<Rightarrow> string \<Rightarrow> string \<Rightarrow> error + VirtualCluster"
  vcClient_Get :: "ncall list \<Rightarrow> string \<Rightarrow> string \<Rightarrow> error + VirtualCluster"
  namespaceClient_Delete :: "ncall list \<Rightarrow> string \<Rightarrow> DeleteOptions \<Rightarrow> error option"
  mc_RequeueObject :: "ncall list \<Rightarrow> string \<Rightarrow> Namespace \<Rightarrow> error option"
  util_GetVirtualClusterObject :: "ncall list \<Rightarrow> string \<Rightarrow> error + VirtualCluster"
  CheckNamespaceEquality :: "VirtualCluster \<Rightarrow> Namespace \<Rightarrow> Namespace \<Rightarrow> Namespace option"
  GetVirtualOwner :: "Namespace \<Rightarrow> string \<times> string"

type_synonym 'a patrol = "(ncall, 'a) run"

definition shouldBeGarbageCollected :: "patrol_controller \<Rightarrow> Namespace \<Rightarrow> bool patrol" where
  "shouldBeGarbageCollected c ns =
     (let vcName = lookup_str (ns_Annotations ns) (LabelVCName c);
          vcNamespace = lookup_str (ns_Annotations ns) (LabelVCNamespace c) in
      if vcName = [] \<or> vcNamespace = [] then ret False
      else
        andThen (call (CallListerGetVC vcNamespace vcName)
                   (\<lambda>h. Inr (vcLister_Get c h vcNamespace vcName)))
        (\<lambda>cached.
           case cached of
             Inl err \<Rightarrow>
               if IsNotFound err then
                 andThen (call (CallClientGetVC vcNamespace vcName)
                            (\<lambda>h. Inr (vcClient_Get c h vcNamespace vcName)))
                 (\<lambda>fresh.
                    case fresh of
                      Inl apiservererr \<Rightarrow>
                        if IsNotFound apiservererr then ret True else ret False
                    | Inr _ \<Rightarrow> ret False)
               else ret False
           | Inr vc \<Rightarrow>
               if lookup_str (ns_Annotations ns) (LabelVCUID c) \<noteq> vc_UID vc then
                 andThen (call (CallClientGetVC vcNamespace vcName)
                            (\<lambda>h. Inr (vcClient_Get c h vcNamespace vcName)))
                 (\<lambda>fresh.
                    case fresh of
                      Inr v \<Rightarrow>
                        if lookup_str (ns_Annotations ns) (LabelVCUID c) \<noteq> vc_UID v
                        then ret True else ret False
                    | Inl _ \<Rightarrow> ret False)
               else ret False))"

definition deleteNamespace :: "patrol_controller \<Rightarrow> Namespace \<Rightarrow> unit patrol" where
  "deleteNamespace c ns =
     (let deleteOptions = \<lparr> do_Preconditions = Some (NewUIDPreconditions (ns_UID ns)) \<rparr> in
      andThen (call (CallNamespaceDelete (ns_Name ns) deleteOptions)
                 (\<lambda>h. Inr (namespaceClient_Delete c h (ns_Name ns) deleteOptions)))
      (\<lambda>err.
         case err of
           Some e \<Rightarrow> ret ()
         | None \<Rightarrow>
             call (CallMetricInc ''DeletedOrphanSuperControlPlaneNamespaces'') (\<lambda>h. Inr ())))"

text \<open>The three handlers \<open>PatrollerDo\<close> hands to the differ, and its filter.\<close>

definition AddFunc :: "patrol_controller \<Rightarrow> ClusterObject \<Rightarrow> unit patrol" where
  "AddFunc c vObj =
     andThen (call (CallRequeueObject (co_OwnerCluster vObj) (co_Object vObj))
                (\<lambda>h. Inr (mc_RequeueObject c h (co_OwnerCluster vObj) (co_Object vObj))))
     (\<lambda>err.
        case err of
          Some e \<Rightarrow> ret ()
        | None \<Rightarrow> call (CallMetricInc ''RequeuedTenantNamespaces'') (\<lambda>h. Inr ()))"

definition UpdateFunc :: "patrol_controller \<Rightarrow> ClusterObject \<Rightarrow> ClusterObject \<Rightarrow> unit patrol" where
  "UpdateFunc c vObj pObj =
     (let v = co_Object vObj; p = co_Object pObj in
      andThen (shouldBeGarbageCollected c p)
      (\<lambda>gc.
         if gc \<or> lookup_str (ns_Annotations p) (LabelUID c) \<noteq> ns_UID v
         then deleteNamespace c p
         else
           andThen (call (CallGetVirtualClusterObject (co_OwnerCluster vObj))
                      (\<lambda>h. Inr (util_GetVirtualClusterObject c h (co_OwnerCluster vObj))))
           (\<lambda>got.
              case got of
                Inl err \<Rightarrow> ret ()
              | Inr vc \<Rightarrow>
                  (case CheckNamespaceEquality c vc p v of
                     Some updatedNamespace \<Rightarrow> AddFunc c vObj
                   | None \<Rightarrow> ret ()))))"

definition DeleteFunc :: "patrol_controller \<Rightarrow> string set \<Rightarrow> ClusterObject \<Rightarrow> unit patrol" where
  "DeleteFunc c knownClusterSet pObj =
     (let p = co_Object pObj in
      if lookup_str (ns_Annotations p) (LabelVCRootNS c) = ''true'' then
        andThen (shouldBeGarbageCollected c p)
        (\<lambda>gc. if gc then deleteNamespace c p else ret ())
      else
        (let clusterName = fst (GetVirtualOwner c p) in
         if clusterName \<in> knownClusterSet then deleteNamespace c p
         else
           andThen (shouldBeGarbageCollected c p)
           (\<lambda>gc. if gc then deleteNamespace c p else ret ())))"

definition FilterFunc :: "patrol_controller \<Rightarrow> ClusterObject \<Rightarrow> bool" where
  "FilterFunc c obj =
     (if co_OwnerCluster obj \<noteq> [] then True
      else if co_OwnerCluster obj = [] \<and>
              lookup_str (ns_Annotations (co_Object obj)) (LabelVCRootNS c) = ''true'' then True
      else (let (clusterName, vNamespace) = GetVirtualOwner c (co_Object obj) in
            clusterName \<noteq> [] \<and> vNamespace \<noteq> []))"

subsection \<open>The garbage-collection contract in the specification's and the code's terms\<close>

text \<open>
  What a fresh (non-cached) lookup of the referenced VirtualCluster says, at the moment
  the function would make it: gone (NotFound), or present under a UID other than the
  namespace's \<open>vc.uid\<close> annotation.
\<close>

definition fresh_lookup ::
  "patrol_controller \<Rightarrow> Namespace \<Rightarrow> ncall list \<Rightarrow> error + VirtualCluster" where
  "fresh_lookup c ns h =
     (let vcName = lookup_str (ns_Annotations ns) (LabelVCName c);
          vcNamespace = lookup_str (ns_Annotations ns) (LabelVCNamespace c) in
      vcClient_Get c (h @ [CallListerGetVC vcNamespace vcName]) vcNamespace vcName)"

definition cached_lookup ::
  "patrol_controller \<Rightarrow> Namespace \<Rightarrow> ncall list \<Rightarrow> error + VirtualCluster" where
  "cached_lookup c ns h =
     vcLister_Get c h (lookup_str (ns_Annotations ns) (LabelVCNamespace c))
       (lookup_str (ns_Annotations ns) (LabelVCName c))"

definition not_found :: "error + VirtualCluster \<Rightarrow> bool" where
  "not_found r = (case r of Inl e \<Rightarrow> IsNotFound e | Inr _ \<Rightarrow> False)"

definition other_uid :: "patrol_controller \<Rightarrow> Namespace \<Rightarrow> error + VirtualCluster \<Rightarrow> bool" where
  "other_uid c ns r =
     (case r of
        Inl _ \<Rightarrow> False
      | Inr vc \<Rightarrow> lookup_str (ns_Annotations ns) (LabelVCUID c) \<noteq> vc_UID vc)"

text \<open>The claimed criterion: the fresh lookup alone.\<close>

definition fresh_says_orphan :: "patrol_controller \<Rightarrow> Namespace \<Rightarrow> ncall list \<Rightarrow> bool" where
  "fresh_says_orphan c ns h =
     (not_found (fresh_lookup c ns h) \<or> other_uid c ns (fresh_lookup c ns h))"

text \<open>
  The criterion the code implements: the cache says gone and so does the fresh lookup, or
  the cache shows another UID and so does the fresh lookup.
\<close>

definition confirmed_orphan :: "patrol_controller \<Rightarrow> Namespace \<Rightarrow> ncall list \<Rightarrow> bool" where
  "confirmed_orphan c ns h =
     ((not_found (cached_lookup c ns h) \<and> not_found (fresh_lookup c ns h)) \<or>
      (other_uid c ns (cached_lookup c ns h) \<and> other_uid c ns (fresh_lookup c ns h)))"

fun is_fresh_lookup :: "ncall \<Rightarrow> bool" where
  "is_fresh_lookup (CallClientGetVC _ _) = True"
| "is_fresh_lookup _ = False"

text \<open>The delete requests and the re-queue requests of a run, in order.\<close>

fun namespace_deletes :: "ncall list \<Rightarrow> (string \<times> DeleteOptions) list" where
  "namespace_deletes [] = []"
| "namespace_deletes (CallNamespaceDelete name opts # evs) = (name, opts) # namespace_deletes evs"
| "namespace_deletes (_ # evs) = namespace_deletes evs"

fun requeues :: "ncall list \<Rightarrow> (string \<times> Namespace) list" where
  "requeues [] = []"
| "requeues (CallRequeueObject cluster obj # evs) = (cluster, obj) # requeues evs"
| "requeues (_ # evs) = requeues evs"

text \<open>The delete request for an observed namespace: its name, and its UID as precondition.\<close>

definition guarded_delete :: "Namespace \<Rightarrow> string \<times> DeleteOptions" where
  "guarded_delete ns = (ns_Name ns, \<lparr> do_Preconditions = Some \<lparr> pre_UID = Some (ns_UID ns) \<rparr> \<rparr>)"

text \<open>
  Metadata drift, as the update handler detects it: the owning VirtualCluster is at hand
  and \<open>CheckNamespaceEquality\<close> returns a namespace to write.
\<close>

definition metadata_drift ::
  "patrol_controller \<Rightarrow> ClusterObject \<Rightarrow> ClusterObject \<Rightarrow> ncall list \<Rightarrow> bool" where
  "metadata_drift c vObj pObj h =
     (case util_GetVirtualClusterObject c h (co_OwnerCluster vObj) of
        Inl _ \<Rightarrow> False
      | Inr vc \<Rightarrow> CheckNamespaceEquality c vc (co_Object pObj) (co_Object vObj) \<noteq> None)"

text \<open>
  A namespace store that honours UID preconditions on delete, as the Kubernetes API
  server does: a delete whose precondition UID differs from the UID of the stored object
  is refused with a conflict and changes nothing.
\<close>

definition honours_uid_precondition ::
  "((string \<rightharpoonup> Namespace) \<Rightarrow> string \<Rightarrow> DeleteOptions \<Rightarrow> error option \<times> (string \<rightharpoonup> Namespace)) \<Rightarrow> bool"
  where
  "honours_uid_precondition srv =
     (\<forall>store name cur uid.
        store name = Some cur \<longrightarrow> uid \<noteq> ns_UID cur \<longrightarrow>
        srv store name \<lparr> do_Preconditions = Some \<lparr> pre_UID = Some uid \<rparr> \<rparr> =
          (Some StatusConflict, store))"

text \<open>
  What a run of \<open>shouldBeGarbageCollected\<close> started after \<open>h\<close> returns and calls: the
  verdict; a fresh lookup among the calls whenever the verdict is true; no delete and no
  re-queue.
\<close>

definition gc_post :: "patrol_controller \<Rightarrow> Namespace \<Rightarrow> ncall list \<Rightarrow> error + bool \<Rightarrow> ncall list \<Rightarrow> bool" where
  "gc_post c ns h r new =
     (r = Inr (lookup_str (ns_Annotations ns) (LabelVCName c) \<noteq> [] \<and>
               lookup_str (ns_Annotations ns) (LabelVCNamespace c) \<noteq> [] \<and>
               confirmed_orphan c ns h) \<and>
      (r = Inr True \<longrightarrow> list_ex is_fresh_lookup new) \<and>
      namespace_deletes new = [] \<and> requeues new = [])"

text \<open>
  What a run of the update handler returns and calls.  The namespace is deleted exactly
  when the garbage-collection check says so or the tenant namespace's UID differs from
  the one recorded on the super-cluster namespace; otherwise metadata drift re-queues the
  tenant namespace.
\<close>

definition update_post ::
  "patrol_controller \<Rightarrow> ClusterObject \<Rightarrow> ClusterObject \<Rightarrow> ncall list \<Rightarrow> error + unit \<Rightarrow> ncall list \<Rightarrow> bool" where
  "update_post c vObj pObj h r new =
     (let p = co_Object pObj; v = co_Object vObj;
          del = (fst (shouldBeGarbageCollected c p h) = Inr True \<or>
                 lookup_str (ns_Annotations p) (LabelUID c) \<noteq> ns_UID v) in
      r = Inr () \<and>
      namespace_deletes new = (if del then [guarded_delete p] else []) \<and>
      requeues new =
        (if \<not> del \<and> metadata_drift c vObj pObj (snd (shouldBeGarbageCollected c p h))
         then [(co_OwnerCluster vObj, v)] else []))"

text \<open>What a run of the delete handler calls: at most the guarded delete of the namespace.\<close>

definition delete_post :: "Namespace \<Rightarrow> error + unit \<Rightarrow> ncall list \<Rightarrow> bool" where
  "delete_post p r new =
     (r = Inr () \<and> (namespace_deletes new = [] \<or> namespace_deletes new = [guarded_delete p]))"

section \<open>Namespace scheduler reconciler (experiment/pkg/scheduler/resource/virtualcluster/namespace/controller.go)\<close>

text \<open>Go's \<open>int\<close> (64 bits on the supported platforms); \<open>+=\<close> wraps.\<close>

type_synonym go_int = "64 word"

type_synonym ResourceList = "(string \<times> int) list"

text \<open>A \<open>map[string]int\<close> of placements, in the order a \<open>range\<close> over it yields.\<close>

type_synonym PlacementMap = "(string \<times> go_int) list"

record Request =
  req_ClusterName :: string
  req_Name :: string

record Result =
  RequeueAfter :: int

record Placement =
  pl_cluster :: string
  pl_num :: go_int

definition NewPlacement :: "string \<Rightarrow> go_int \<Rightarrow> Placement" where
  "NewPlacement k v = \<lparr> pl_cluster = k, pl_num = v \<rparr>"

text \<open>The candidate handed to the engine (\<open>internalcache.NewNamespace\<close>).\<close>

record SchedNamespace =
  sn_owner :: string
  sn_name :: string
  sn_labels :: "string \<rightharpoonup> string"
  sn_quota :: ResourceList
  sn_quotaSlice :: ResourceList
  sn_schedule :: "Placement list"

definition NewNamespace ::
  "string \<Rightarrow> string \<Rightarrow> (string \<rightharpoonup> string) \<Rightarrow> ResourceList \<Rightarrow> ResourceList \<Rightarrow> Placement list
   \<Rightarrow> SchedNamespace" where
  "NewNamespace owner name labels quota quotaSlice schedule =
     \<lparr> sn_owner = owner, sn_name = name, sn_labels = labels, sn_quota = quota,
       sn_quotaSlice = quotaSlice, sn_schedule = schedule \<rparr>"

record ObjectReference =
  ref_Kind :: string
  ref_Name :: string
  ref_Namespace :: string
  ref_UID :: string

definition EventTypeNormal :: string where "EventTypeNormal = ''Normal''"

datatype scall =
    CallGetOwnerInfo string
  | CallDirtyLoad string
  | CallGetNamespace string string
  | CallListQuota string string
  | CallDeScheduleNamespace string
  | CallEnsureNamespacePlacements SchedNamespace
  | CallScheduleNamespace SchedNamespace
  | CallGetClusterClient string
  | CallNamespaceUpdate Namespace
  | CallNamespaceGet string
  | CallEventf string ObjectReference string string

text \<open>
  The reconciler's \<open>controller\<close>: the multi-cluster controller (owner info, cached reads of
  the tenant cluster, events, the tenant client), the set of dirty virtual clusters, the
  scheduling engine with its cache, the tenant API server behind the client (\<open>Update\<close>,
  \<open>Get\<close>), and the functions of the packages \<open>util\<close>, \<open>internalcache\<close>, \<open>encoding/json\<close> and
  \<open>retry\<close> that the file uses.  The engine returns the placement map of its result
  (\<open>None\<close> for a nil map).  An event is recorded with its type and reason; the formatted
  message is left out.
\<close>

record sched_controller =
  LabelScheduledPlacements :: string
  mc_GetOwnerInfo :: "scall list \<Rightarrow> string \<Rightarrow> error + (string \<times> string \<times> string)"
  DirtyVirtualClusters_Load :: "scall list \<Rightarrow> string \<Rightarrow> bool"
  mc_Get :: "scall list \<Rightarrow> string \<Rightarrow> string \<Rightarrow> error + Namespace"
  mc_ListQuota :: "scall list \<Rightarrow> string \<Rightarrow> string \<Rightarrow> error + ResourceList list"
  mc_GetClusterClient :: "scall list \<Rightarrow> string \<Rightarrow> error option"
  mc_Eventf :: "scall list \<Rightarrow> string \<Rightarrow> ObjectReference \<Rightarrow> string \<Rightarrow> string \<Rightarrow> error option"
  engine_DeScheduleNamespace :: "scall list \<Rightarrow> string \<Rightarrow> error option"
  engine_EnsureNamespacePlacements :: "scall list \<Rightarrow> SchedNamespace \<Rightarrow> error option"
  engine_ScheduleNamespace :: "scall list \<Rightarrow> SchedNamespace \<Rightarrow> error + PlacementMap option"
  vcClient_Update :: "scall list \<Rightarrow> Namespace \<Rightarrow> error option"
  vcClient_GetNamespace :: "scall list \<Rightarrow> string \<Rightarrow> error + Namespace"
  GetMaxQuota :: "ResourceList list \<Rightarrow> ResourceList"
  GetSchedulingInfo :: "Namespace \<Rightarrow> error + (PlacementMap \<times> ResourceList)"
  GetLeastFitSliceNum :: "ResourceList \<Rightarrow> ResourceList \<Rightarrow> go_int"
  json_Marshal :: "PlacementMap \<Rightarrow> string"

type_synonym 'a sched = "(scall, 'a) run"

subsection \<open>updateSchedulingResult\<close>

text \<open>
  The closure passed to \<open>retry.RetryOnConflict\<close>: it works on \<open>clone\<close>, which it replaces
  by the namespace read back after a failed update.  It returns its error and the clone.
\<close>

definition update_attempt ::
  "sched_controller \<Rightarrow> PlacementMap option \<Rightarrow> Namespace \<Rightarrow> (error option \<times> Namespace) sched" where
  "update_attempt c placementMap clone0 =
     (let clone =
            (case placementMap of
               None \<Rightarrow>
                 clone0 \<lparr> ns_Annotations :=
                            (ns_Annotations clone0) (LabelScheduledPlacements c := None) \<rparr>
             | Some pm \<Rightarrow>
                 clone0 \<lparr> ns_Annotations :=
                            (ns_Annotations clone0)
                              (LabelScheduledPlacements c \<mapsto> json_Marshal c pm) \<rparr>) in
      andThen (call (CallNamespaceUpdate clone) (\<lambda>h. Inr (vcClient_Update c h clone)))
      (\<lambda>updateErr.
         case updateErr of
           None \<Rightarrow> ret (None, clone)
         | Some e \<Rightarrow>
             andThen (call (CallNamespaceGet (ns_Name clone))
                        (\<lambda>h. Inr (vcClient_GetNamespace c h (ns_Name clone))))
             (\<lambda>got.
                case got of
                  Inr g \<Rightarrow> ret (Some e, g)
                | Inl _ \<Rightarrow> ret (Some e, clone))))"

text \<open>
  \<open>retry.RetryOnConflict\<close> of client-go, over \<open>wait.ExponentialBackoff\<close>: at most
  \<open>Steps\<close> attempts; an attempt is repeated only after a conflict; when the steps are used
  up the last conflict is returned.  \<open>retry.DefaultBackoff\<close> has \<open>Steps: 4\<close>; its
  durations set only the sleep between two attempts.
\<close>

definition DefaultBackoff_Steps :: nat where
  "DefaultBackoff_Steps = 4"

fun RetryOnConflict ::
  "nat \<Rightarrow> (Namespace \<Rightarrow> (error option \<times> Namespace) sched) \<Rightarrow> Namespace \<Rightarrow> error option
   \<Rightarrow> error option sched" where
  "RetryOnConflict 0 fn clone lastErr = ret lastErr"
| "RetryOnConflict (Suc steps) fn clone lastErr =
     andThen (fn clone)
     (\<lambda>(err, clone').
        case err of
          None \<Rightarrow> ret None
        | Some e \<Rightarrow>
            if IsConflict e then RetryOnConflict steps fn clone' (Some e)
            else ret (Some e))"

definition updateSchedulingResult ::
  "sched_controller \<Rightarrow> string \<Rightarrow> Namespace \<Rightarrow> PlacementMap option \<Rightarrow> error option sched" where
  "updateSchedulingResult c clusterName namespace placementMap =
     andThen (call (CallGetClusterClient clusterName)
                (\<lambda>h. Inr (mc_GetClusterClient c h clusterName)))
     (\<lambda>err.
        case err of
          Some e \<Rightarrow>
            ret (Some (ErrorfV (''failed to get vc '' @ clusterName @ CHR 0x27 # ''s client'') e))
        | None \<Rightarrow>
            RetryOnConflict DefaultBackoff_Steps (update_attempt c placementMap) namespace None)"

subsection \<open>Reconcile\<close>

definition zero_quota :: ResourceList where
  "zero_quota = [(''cpu'', 0), (''memory'', 0)]"

definition sched_key :: "Request \<Rightarrow> string" where
  "sched_key request = req_ClusterName request @ ''/'' @ req_Name request"

definition event_ref :: "Namespace \<Rightarrow> ObjectReference" where
  "event_ref namespace =
     \<lparr> ref_Kind = ''Namespace'', ref_Name = ns_Name namespace,
       ref_Namespace = ns_Name namespace, ref_UID = ns_UID namespace \<rparr>"

definition unreserve_msg :: "Request \<Rightarrow> string" where
  "unreserve_msg request =
     ''failed to unreserve namespace '' @ req_Name request @ '' in '' @ req_ClusterName request"

definition remove_msg :: "Request \<Rightarrow> string" where
  "remove_msg request =
     ''failed to remove scheduing placements from namespace '' @ req_Name request @ '' in '' @
     req_ClusterName request"

definition Reconcile :: "sched_controller \<Rightarrow> Request \<Rightarrow> Result sched" where
  "Reconcile c request =
     andThen (call (CallGetOwnerInfo (req_ClusterName request))
                (\<lambda>h. mc_GetOwnerInfo c h (req_ClusterName request)))
     (\<lambda>(vcName, vcNamespace, _).
     andThen (call (CallDirtyLoad (vcNamespace @ ''/'' @ vcName))
                (\<lambda>h. Inr (DirtyVirtualClusters_Load c h (vcNamespace @ ''/'' @ vcName))))
     (\<lambda>dirty.
       if dirty then ret \<lparr> RequeueAfter = 5 * time_Second \<rparr>
       else
     andThen (call (CallGetNamespace (req_ClusterName request) (req_Name request))
                (\<lambda>h. Inr (mc_Get c h (req_ClusterName request) (req_Name request))))
     (\<lambda>got.
       case got of
         Inl err \<Rightarrow>
           if \<not> IsNotFound err then throw err
           else
             andThen (call (CallDeScheduleNamespace (sched_key request))
                        (\<lambda>h. Inr (engine_DeScheduleNamespace c h (sched_key request))))
             (\<lambda>err. case err of
                       Some e \<Rightarrow> throw (ErrorfV (unreserve_msg request) e)
                     | None \<Rightarrow> ret \<lparr> RequeueAfter = 0 \<rparr>)
       | Inr namespace \<Rightarrow>
     andThen (call (CallListQuota (req_ClusterName request) (req_Name request))
                (\<lambda>h. Inr (mc_ListQuota c h (req_ClusterName request) (req_Name request))))
     (\<lambda>listed.
     andThen
       (case listed of
          Inl err \<Rightarrow>
            if \<not> IsNotFound err then
              throw (ErrorfV (''failed to get resource quota in '' @ sched_key request) err)
            else ret zero_quota
        | Inr quotaList \<Rightarrow> ret (GetMaxQuota c quotaList))
     (\<lambda>quota.
       case GetSchedulingInfo c namespace of
         Inl err \<Rightarrow>
           throw (ErrorfV (''failed to get scheduling info in '' @ req_Name request) err)
       | Inr (placements, quotaSlice) \<Rightarrow>
     (let expect = GetLeastFitSliceNum c quota quotaSlice in
      if expect = 0 then
        andThen (updateSchedulingResult c (req_ClusterName request) namespace None)
        (\<lambda>err.
           case err of
             Some e \<Rightarrow>
               throw (ErrorfV (remove_msg request) e)
           | None \<Rightarrow>
               andThen (call (CallDeScheduleNamespace (sched_key request))
                          (\<lambda>h. Inr (engine_DeScheduleNamespace c h (sched_key request))))
               (\<lambda>err. case err of
                         Some e \<Rightarrow> throw (ErrorfV (unreserve_msg request) e)
                       | None \<Rightarrow> ret \<lparr> RequeueAfter = 0 \<rparr>))
      else
     (let numSched = foldl (\<lambda>n (k, v). n + v) 0 placements;
          schedule = map (\<lambda>(k, v). NewPlacement k v) placements;
          candidate = NewNamespace (req_ClusterName request) (req_Name request)
                        (ns_Labels namespace) quota quotaSlice schedule in
      if numSched = expect then
        andThen (call (CallEnsureNamespacePlacements candidate)
                   (\<lambda>h. Inr (engine_EnsureNamespacePlacements c h candidate)))
        (\<lambda>err. case err of
                  Some e \<Rightarrow>
                    throw (ErrorfV (''failed to ensure namespace '' @ req_Name request @
                                    CHR 0x27 # ''s placements in '' @
                                    req_ClusterName request) e)
                | None \<Rightarrow> ret \<lparr> RequeueAfter = 0 \<rparr>)
      else
        andThen (call (CallScheduleNamespace candidate)
                   (\<lambda>h. Inr (engine_ScheduleNamespace c h candidate)))
        (\<lambda>scheduled.
           case scheduled of
             Inl err \<Rightarrow>
               andThen (call (CallEventf (req_ClusterName request) (event_ref namespace)
                                EventTypeNormal ''Failed'')
                          (\<lambda>h. Inr (mc_Eventf c h (req_ClusterName request) (event_ref namespace)
                                       EventTypeNormal ''Failed'')))
               (\<lambda>_. throw (ErrorfV (''failed to schedule namespace '' @ req_Name request @
                                     '' in '' @ req_ClusterName request) err))
           | Inr placementMap \<Rightarrow>
               andThen (updateSchedulingResult c (req_ClusterName request) namespace placementMap)
               (\<lambda>err.
                  case err of
                    Some e \<Rightarrow> throw e
                  | None \<Rightarrow>
                      andThen (call (CallEventf (req_ClusterName request) (event_ref namespace)
                                       EventTypeNormal ''Scheduled'')
                                 (\<lambda>h. Inr (mc_Eventf c h (req_ClusterName request)
                                              (event_ref namespace) EventTypeNormal ''Scheduled'')))
                      (\<lambda>err. case err of
                                Some e \<Rightarrow> throw e
                              | None \<Rightarrow> ret \<lparr> RequeueAfter = 0 \<rparr>))))))))))"

subsection \<open>The ordering contract of a reconcile\<close>



















section \<open>Verified properties\<close>

subsection \<open>Concrete inputs used by the evaluated instances\<close>

definition pem_example :: pem_codec where
  "pem_example =
     \<lparr> EncodePublicKeyPEM = (\<lambda>p. Inr (''PUBLIC KEY '' @ p)),
       EncodePrivateKeyPEM = (\<lambda>k. ''RSA PRIVATE KEY '' @ PrivateExponent k),
       EncodeCertPEM = (\<lambda>c. ''CERTIFICATE '' @ c) \<rparr>"

definition key_example :: RsaPrivateKey where
  "key_example = \<lparr> PublicKey = ''n65537'', PrivateExponent = ''d17'' \<rparr>"

definition sa_secret_example :: Secret where
  "sa_secret_example =
     \<lparr> sec_Kind = ''Secret'', sec_APIVersion = ''v1'', sec_Name = ''serviceaccount-rsa'',
       sec_Namespace = ''vc-a-demo'', sec_Type = ''kubernetes.io/tls'',
       sec_Data = [''tls.crt'' \<mapsto> ''PUBLIC KEY n65537'',
                   ''tls.key'' \<mapsto> ''RSA PRIVATE KEY d17''] \<rparr>"

definition vc_example :: VirtualCluster where
  "vc_example =
     \<lparr> vc_Name = ''demo'', vc_Namespace = ''vc-a'', vc_UID = ''u1'',
       vc_ClusterVersionName = ''cv-1'' \<rparr>"

definition etcd_bundle_example :: StatefulSetSvcBundle where
  "etcd_bundle_example =
     \<lparr> bdl_Name = ''etcd'',
       bdl_StatefulSet =
         Some \<lparr> sts_Name = ''etcd'', sts_Namespace = [], sts_Replicas = Some 1,
                sts_Containers = [[''etcd'']] \<rparr>,
       bdl_Service = Some \<lparr> svc_Name = ''etcd'', svc_Namespace = [], svc_Type = ''ClusterIP'' \<rparr> \<rparr>"

definition apiserver_bundle_example :: StatefulSetSvcBundle where
  "apiserver_bundle_example =
     \<lparr> bdl_Name = ''apiserver'',
       bdl_StatefulSet =
         Some \<lparr> sts_Name = ''apiserver'', sts_Namespace = [], sts_Replicas = Some 1,
                sts_Containers = [[''kube-apiserver'']] \<rparr>,
       bdl_Service =
         Some \<lparr> svc_Name = ''apiserver-svc'', svc_Namespace = [], svc_Type = ''ClusterIP'' \<rparr> \<rparr>"

definition ctrlmgr_bundle_example :: StatefulSetSvcBundle where
  "ctrlmgr_bundle_example =
     \<lparr> bdl_Name = ''controller-manager'',
       bdl_StatefulSet =
         Some \<lparr> sts_Name = ''controller-manager'', sts_Namespace = [], sts_Replicas = Some 1,
                sts_Containers = [[''kube-controller-manager'']] \<rparr>,
       bdl_Service = None \<rparr>"

definition cv_example :: ClusterVersion where
  "cv_example =
     \<lparr> cv_ETCD = Some etcd_bundle_example,
       cv_APIServer = Some apiserver_bundle_example,
       cv_ControllerManager = Some ctrlmgr_bundle_example \<rparr>"

text \<open>A super cluster in which every call succeeds and the service gets the IP 10.0.0.7.\<close>

definition native_example :: Native where
  "native_example =
     \<lparr> client_Get_CV = (\<lambda>h name. Inr cv_example),
       client_Create = (\<lambda>h obj. None),
       ProvisionerTimeout = 120000000000,
       CreateRootNS = (\<lambda>h vc. Inr ''vc-a-demo''),
       GetSvcClusterIP = (\<lambda>h ns name. (''10.0.0.7'', None)),
       WaitStatefulSetReady = (\<lambda>h ns name timeout period. None),
       ToClusterKey = (\<lambda>vc. vc_Namespace vc @ ''-'' @ vc_Name vc),
       GetEtcdServers = (\<lambda>cv. [''etcd-0.etcd'']),
       GetEtcdDomain = (\<lambda>cv. ''etcd''),
       GetAPIServerDomain = (\<lambda>cv ns. ''apiserver-svc.'' @ ns),
       NewCertificateAuthority = (\<lambda>h. Inr (''root-crt'', Some key_example)),
       NewEtcdServerCertAndKey = (\<lambda>h ca domains. Inr \<lparr> Crt = ''etcd-crt'', Key = key_example \<rparr>),
       NewFrontProxyClientCertAndKey = (\<lambda>h ca. Inr \<lparr> Crt = ''fp-crt'', Key = key_example \<rparr>),
       NewAPIServerCrtAndKey =
         (\<lambda>h ca vc domain ip. Inr \<lparr> Crt = ''apiserver-crt'', Key = key_example \<rparr>),
       GenerateKubeconfig = (\<lambda>h user cluster server groups ca. Inr (''kubeconfig '' @ server)),
       NewServiceAccountSigningKey = (\<lambda>h. Inr key_example),
       pem = pem_example \<rparr>"

text \<open>The same super cluster, already holding every object: each \<open>Create\<close> reports \<open>AlreadyExists\<close>.\<close>

definition native_retry_example :: Native where
  "native_retry_example = native_example \<lparr> client_Create := (\<lambda>h obj. Some StatusAlreadyExists) \<rparr>"

text \<open>The same super cluster, refusing to create StatefulSets.\<close>

definition native_forbidden_example :: Native where
  "native_forbidden_example =
     native_example
       \<lparr> client_Create :=
           (\<lambda>h obj. case obj of
                       ObjStatefulSet sts \<Rightarrow> Some (StatusOther ''forbidden'')
                     | _ \<Rightarrow> Some StatusAlreadyExists) \<rparr>"

text \<open>The same super cluster, with a failing key generator.\<close>

definition native_keygen_fails_example :: Native where
  "native_keygen_fails_example =
     native_example \<lparr> NewCertificateAuthority := (\<lambda>h. Inl (Errorf ''keygen'')) \<rparr>"

text \<open>The calls of provisioning \<open>vc_example\<close> up to and including the PKI secrets.\<close>

definition root_pair_example :: CrtKeyPair where
  "root_pair_example = \<lparr> Crt = ''root-crt'', Key = key_example \<rparr>"

definition apiserver_service_example :: Service where
  "apiserver_service_example =
     \<lparr> svc_Name = ''apiserver-svc'', svc_Namespace = ''vc-a-demo'', svc_Type = ''ClusterIP'' \<rparr>"

definition pki_calls_example :: "pcall list" where
  "pki_calls_example =
     [CallNewCertificateAuthority,
      CallNewEtcdServerCertAndKey [''etcd-0.etcd'', ''etcd''],
      CallNewFrontProxyClientCertAndKey,
      CallGetSvcClusterIP ''vc-a-demo'' ''apiserver-svc'',
      CallNewAPIServerCrtAndKey ''apiserver-svc.vc-a-demo'' ''10.0.0.7'',
      CallGenerateKubeconfig ''system:kube-controller-manager'' ''demo'' ''10.0.0.7'' [],
      CallGenerateKubeconfig ''admin'' ''demo'' ''10.0.0.7'' [''system:masters''],
      CallNewServiceAccountSigningKey,
      ClientCall VerbCreate (ObjSecret
        (CrtKeyPairToSecret pem_example ''root-ca'' ''vc-a-demo'' root_pair_example)),
      ClientCall VerbCreate (ObjSecret
        (CrtKeyPairToSecret pem_example ''apiserver-ca'' ''vc-a-demo''
           \<lparr> Crt = ''apiserver-crt'', Key = key_example \<rparr>)),
      ClientCall VerbCreate (ObjSecret
        (CrtKeyPairToSecret pem_example ''etcd-ca'' ''vc-a-demo''
           \<lparr> Crt = ''etcd-crt'', Key = key_example \<rparr>)),
      ClientCall VerbCreate (ObjSecret
        (CrtKeyPairToSecret pem_example ''front-proxy-ca'' ''vc-a-demo''
           \<lparr> Crt = ''fp-crt'', Key = key_example \<rparr>)),
      ClientCall VerbCreate (ObjSecret
        (KubeconfigToSecret ''controller-manager-kubeconfig'' ''vc-a-demo''
           ''kubeconfig 10.0.0.7'')),
      ClientCall VerbCreate (ObjSecret
        (KubeconfigToSecret ''admin-kubeconfig'' ''vc-a-demo'' ''kubeconfig 10.0.0.7'')),
      ClientCall VerbCreate (ObjSecret sa_secret_example)]"

definition etcd_statefulset_example :: StatefulSet where
  "etcd_statefulset_example =
     \<lparr> sts_Name = ''etcd'', sts_Namespace = ''vc-a-demo'', sts_Replicas = Some 1,
       sts_Containers = [[''etcd'', ''--initial-cluster'', ''etcd-0=https://etcd-0.etcd:2380'']] \<rparr>"

definition deploy_calls_example :: "pcall list" where
  "deploy_calls_example =
     [ClientCall VerbCreate (ObjStatefulSet etcd_statefulset_example),
      ClientCall VerbCreate (ObjService
        \<lparr> svc_Name = ''etcd'', svc_Namespace = ''vc-a-demo'', svc_Type = ''ClusterIP'' \<rparr>),
      CallWaitStatefulSetReady ''vc-a-demo'' ''etcd'' 120 2,
      ClientCall VerbCreate (ObjStatefulSet
        \<lparr> sts_Name = ''apiserver'', sts_Namespace = ''vc-a-demo'', sts_Replicas = Some 1,
          sts_Containers = [[''kube-apiserver'']] \<rparr>),
      CallWaitStatefulSetReady ''vc-a-demo'' ''apiserver'' 120 2,
      ClientCall VerbCreate (ObjStatefulSet
        \<lparr> sts_Name = ''controller-manager'', sts_Namespace = ''vc-a-demo'',
          sts_Replicas = Some 1, sts_Containers = [[''kube-controller-manager'']] \<rparr>),
      CallWaitStatefulSetReady ''vc-a-demo'' ''controller-manager'' 120 2]"

definition provisioning_calls_example :: "pcall list" where
  "provisioning_calls_example =
     [ClientCall VerbGet (ObjClusterVersion ''cv-1''),
      CallCreateRootNS vc_example,
      ClientCall VerbCreate (ObjService apiserver_service_example)]
     @ pki_calls_example @ deploy_calls_example"

text \<open>A ClusterVersion whose API server is exposed as a NodePort service.\<close>

definition cv_nodeport_example :: ClusterVersion where
  "cv_nodeport_example =
     cv_example
       \<lparr> cv_APIServer :=
           Some (apiserver_bundle_example
                   \<lparr> bdl_Service :=
                       Some \<lparr> svc_Name = ''apiserver-svc'', svc_Namespace = [],
                              svc_Type = ''NodePort'' \<rparr> \<rparr>) \<rparr>"

text \<open>
  A super-cluster namespace \<open>vc-a-demo-ns1\<close> of the tenant \<open>vc-a/demo\<close> (UID \<open>u1\<close>) and
  the tenant namespace \<open>ns1\<close> it mirrors; a patroller whose cache and API server both hold
  the VirtualCluster; and variations of it.
\<close>

definition pns_example :: Namespace where
  "pns_example =
     \<lparr> ns_Name = ''vc-a-demo-ns1'', ns_UID = ''p-uid-1'', ns_Labels = Map.empty,
       ns_Annotations = [''vc.name'' \<mapsto> ''demo'', ''vc.namespace'' \<mapsto> ''vc-a'',
                         ''vc.uid'' \<mapsto> ''u1'', ''uid'' \<mapsto> ''v-uid-1''] \<rparr>"

definition vns_example :: Namespace where
  "vns_example =
     \<lparr> ns_Name = ''ns1'', ns_UID = ''v-uid-1'', ns_Labels = Map.empty,
       ns_Annotations = Map.empty \<rparr>"

definition pobj_example :: ClusterObject where
  "pobj_example = \<lparr> co_Object = pns_example, co_OwnerCluster = [], co_Key = ''vc-a-demo-ns1'' \<rparr>"

definition vobj_example :: ClusterObject where
  "vobj_example =
     \<lparr> co_Object = vns_example, co_OwnerCluster = ''vc-a-demo'', co_Key = ''vc-a-demo-ns1'' \<rparr>"

definition patrol_example :: patrol_controller where
  "patrol_example =
     \<lparr> LabelVCName = ''vc.name'', LabelVCNamespace = ''vc.namespace'', LabelVCUID = ''vc.uid'',
       LabelUID = ''uid'', LabelVCRootNS = ''vc.rootNs'',
       vcLister_Get = (\<lambda>h ns name. Inr vc_example),
       vcClient_Get = (\<lambda>h ns name. Inr vc_example),
       namespaceClient_Delete = (\<lambda>h name opts. None),
       mc_RequeueObject = (\<lambda>h cluster obj. None),
       util_GetVirtualClusterObject = (\<lambda>h cluster. Inr vc_example),
       CheckNamespaceEquality = (\<lambda>vc p v. None),
       GetVirtualOwner = (\<lambda>p. (''vc-a-demo'', ''ns1'')) \<rparr>"

definition patrol_stale_example :: patrol_controller where
  "patrol_stale_example = patrol_example \<lparr> vcClient_Get := (\<lambda>h ns name. Inl StatusNotFound) \<rparr>"

definition patrol_drift_example :: patrol_controller where
  "patrol_drift_example = patrol_example \<lparr> CheckNamespaceEquality := (\<lambda>vc p v. Some p) \<rparr>"

definition patrol_gone_example :: patrol_controller where
  "patrol_gone_example =
     patrol_example \<lparr> vcLister_Get := (\<lambda>h ns name. Inl StatusNotFound),
                      vcClient_Get := (\<lambda>h ns name. Inl StatusNotFound) \<rparr>"

text \<open>A namespace store that checks the UID precondition of a delete.\<close>

definition apiserver_delete_example ::
  "(string \<rightharpoonup> Namespace) \<Rightarrow> string \<Rightarrow> DeleteOptions \<Rightarrow> error option \<times> (string \<rightharpoonup> Namespace)"
  where
  "apiserver_delete_example store name opts =
     (case store name of
        None \<Rightarrow> (Some StatusNotFound, store)
      | Some cur \<Rightarrow>
          (case do_Preconditions opts of
             None \<Rightarrow> (None, store(name := None))
           | Some pre \<Rightarrow>
               (case pre_UID pre of
                  None \<Rightarrow> (None, store(name := None))
                | Some uid \<Rightarrow>
                    if uid \<noteq> ns_UID cur then (Some StatusConflict, store)
                    else (None, store(name := None)))))"

text \<open>The super cluster after \<open>vc-a-demo-ns1\<close> was deleted and created again.\<close>

definition store_recreated_example :: "string \<rightharpoonup> Namespace" where
  "store_recreated_example = [''vc-a-demo-ns1'' \<mapsto> pns_example \<lparr> ns_UID := ''p-uid-2'' \<rparr>]"

text \<open>
  The tenant namespace \<open>ns1\<close> of the cluster \<open>vc-a-demo\<close>, scheduled to \<open>c1\<close> with two
  slices; a reconciler in whose tenant cluster the namespace has a quota of four slices
  and whose engine finds room for them; and variations of it.
\<close>

definition req_example :: Request where
  "req_example = \<lparr> req_ClusterName = ''vc-a-demo'', req_Name = ''ns1'' \<rparr>"

definition tenant_ns_example :: Namespace where
  "tenant_ns_example =
     \<lparr> ns_Name = ''ns1'', ns_UID = ''v-uid-1'', ns_Labels = Map.empty,
       ns_Annotations = [''scheduled.placements'' \<mapsto> ''{c1:2}''] \<rparr>"

definition slice_example :: ResourceList where
  "slice_example = [(''cpu'', 2), (''memory'', 4)]"

definition json_example :: "PlacementMap \<Rightarrow> string" where
  "json_example pm =
     ''{'' @ join_comma (map (\<lambda>(k, v). k @ '':'' @ dec_nat (unat v)) pm) @ ''}''"

definition sched_example :: sched_controller where
  "sched_example =
     \<lparr> LabelScheduledPlacements = ''scheduled.placements'',
       mc_GetOwnerInfo = (\<lambda>h cluster. Inr (''demo'', ''vc-a'', ''u1'')),
       DirtyVirtualClusters_Load = (\<lambda>h key. False),
       mc_Get = (\<lambda>h cluster name. Inr tenant_ns_example),
       mc_ListQuota = (\<lambda>h cluster name. Inr [[(''cpu'', 8), (''memory'', 16)]]),
       mc_GetClusterClient = (\<lambda>h cluster. None),
       mc_Eventf = (\<lambda>h cluster ref etype reason. None),
       engine_DeScheduleNamespace = (\<lambda>h key. None),
       engine_EnsureNamespacePlacements = (\<lambda>h candidate. None),
       engine_ScheduleNamespace = (\<lambda>h candidate. Inr (Some [(''c1'', 3), (''c2'', 1)])),
       vcClient_Update = (\<lambda>h n. None),
       vcClient_GetNamespace = (\<lambda>h name. Inr tenant_ns_example),
       GetMaxQuota = (\<lambda>quotas. case quotas of [] \<Rightarrow> zero_quota | q # _ \<Rightarrow> q),
       GetSchedulingInfo = (\<lambda>n. Inr ([(''c1'', 2)], slice_example)),
       GetLeastFitSliceNum = (\<lambda>quota slice. if quota = zero_quota then 0 else 4),
       json_Marshal = json_example \<rparr>"

text \<open>Scenario ``quota gone'': the namespace has no resource quota any more.\<close>

definition sched_quota_gone_example :: sched_controller where
  "sched_quota_gone_example = sched_example \<lparr> mc_ListQuota := (\<lambda>h cluster name. Inr []) \<rparr>"

text \<open>The engine finds no room.\<close>

definition sched_no_capacity_example :: sched_controller where
  "sched_no_capacity_example =
     sched_example
       \<lparr> engine_ScheduleNamespace := (\<lambda>h candidate. Inl (Errorf ''insufficient capacity'')) \<rparr>"

text \<open>The quota is gone and the engine fails to release the entry.\<close>

definition sched_release_fails_example :: sched_controller where
  "sched_release_fails_example =
     sched_quota_gone_example
       \<lparr> engine_DeScheduleNamespace := (\<lambda>h key. Some (Errorf ''namespace is not in the cache'')) \<rparr>"

text \<open>
  The namespace already holds its four slices and the engine fails to confirm them.
\<close>

definition sched_ensure_fails_example :: sched_controller where
  "sched_ensure_fails_example =
     sched_example
       \<lparr> engine_EnsureNamespacePlacements :=
           (\<lambda>h candidate. Some (Errorf ''placements do not fit the cache'')),
         GetSchedulingInfo := (\<lambda>n. Inr ([(''c1'', 4)], slice_example)) \<rparr>"

definition prologue_example :: "scall list" where
  "prologue_example =
     [CallGetOwnerInfo ''vc-a-demo'', CallDirtyLoad ''vc-a/demo'',
      CallGetNamespace ''vc-a-demo'' ''ns1'', CallListQuota ''vc-a-demo'' ''ns1'']"

definition candidate_example :: SchedNamespace where
  "candidate_example =
     \<lparr> sn_owner = ''vc-a-demo'', sn_name = ''ns1'', sn_labels = Map.empty,
       sn_quota = [(''cpu'', 8), (''memory'', 16)], sn_quotaSlice = slice_example,
       sn_schedule = [\<lparr> pl_cluster = ''c1'', pl_num = 2 \<rparr>] \<rparr>"


definition tenant_ref_example :: ObjectReference where
  "tenant_ref_example =
     \<lparr> ref_Kind = ''Namespace'', ref_Name = ''ns1'', ref_Namespace = ''ns1'',
       ref_UID = ''v-uid-1'' \<rparr>"

subsection \<open>The service-account key secret\<close>

lemma RsaKeyToSecret_example:
  "RsaKeyToSecret pem_example ''serviceaccount-rsa'' ''vc-a-demo'' key_example = Inr sa_secret_example"
  by (simp add: RsaKeyToSecret_def pem_example_def key_example_def sa_secret_example_def
      SchemeGroupVersion_String_def SecretTypeTLS_def TLSCertKey_def TLSPrivateKeyKey_def)

text \<open>
  C4, as claimed, fails: the secret built for the service-account key is not of the opaque
  shape.  For the key \<open>key_example\<close> the secret is \<open>sa_secret_example\<close>, whose type is
  \<open>kubernetes.io/tls\<close> and which has two fields, neither keyed by the secret's name.
\<close>

theorem RsaKeyToSecret_not_opaque_counterexample:
  "RsaKeyToSecret pem_example ''serviceaccount-rsa'' ''vc-a-demo'' key_example =
     Inr sa_secret_example \<and>
   sec_Type sa_secret_example \<noteq> SecretTypeOpaque \<and>
   \<not> opaque_shape sa_secret_example"
  by (simp add: RsaKeyToSecret_example)
     (simp add: sa_secret_example_def SecretTypeOpaque_def opaque_shape_def)

text \<open>
  C4 (amended): for every RSA private key, \<open>RsaKeyToSecret\<close> either returns the error of
  the public-key encoder and no secret, or a secret of the TLS shape (type
  \<open>kubernetes.io/tls\<close>, exactly the fields \<open>tls.crt\<close> and \<open>tls.key\<close>) with the given name and
  namespace, whose \<open>tls.crt\<close> field is the PEM-encoded public key and whose \<open>tls.key\<close>
  field is the PEM-encoded private key; the secret is never of the opaque type.
\<close>

theorem RsaKeyToSecret_tls_shape:
  "(case RsaKeyToSecret codec name namespace rsaKey of
      Inl err \<Rightarrow> EncodePublicKeyPEM codec (PublicKey rsaKey) = Inl err
    | Inr s \<Rightarrow>
        (\<exists>pub. EncodePublicKeyPEM codec (PublicKey rsaKey) = Inr pub \<and>
               tls_shape s pub (EncodePrivateKeyPEM codec rsaKey)) \<and>
        sec_Name s = name \<and> sec_Namespace s = namespace \<and>
        sec_Type s \<noteq> SecretTypeOpaque)"
proof (cases "EncodePublicKeyPEM codec (PublicKey rsaKey)")
  case (Inl err)
  then show ?thesis by (simp add: RsaKeyToSecret_def)
next
  case (Inr pub)
  have keys: "TLSCertKey \<noteq> TLSPrivateKeyKey"
    by (simp add: TLSCertKey_def TLSPrivateKeyKey_def)
  have types: "SecretTypeTLS \<noteq> SecretTypeOpaque"
    by (simp add: SecretTypeTLS_def SecretTypeOpaque_def)
  show ?thesis
    using Inr keys types by (auto simp: RsaKeyToSecret_def tls_shape_def)
qed

theorem RsaKeyToSecret_tls_shape_witness:
  "tls_shape sa_secret_example ''PUBLIC KEY n65537'' ''RSA PRIVATE KEY d17'' \<and>
   sec_Name sa_secret_example = ''serviceaccount-rsa''"
  using RsaKeyToSecret_tls_shape
          [where codec = pem_example and name = "''serviceaccount-rsa''"
             and namespace = "''vc-a-demo''" and rsaKey = key_example]
  by (simp add: RsaKeyToSecret_example) (simp add: pem_example_def key_example_def)

subsection \<open>The etcd peer list\<close>

lemma sint_succ_below:
  fixes i r :: int32
  assumes "i <s r"
  shows "sint (i + 1) = sint i + 1"
proof -
  have lt: "sint i < sint r" using assms by (simp add: word_sless_alt)
  have ub: "sint r < 2 ^ 31" using sint_lt [of r] by simp
  have lb: "- (2 ^ 31) \<le> sint i" using sint_ge [of i] by simp
  have "sint (i + 1) = signed_take_bit 31 (sint i + 1)"
    by (simp add: sint_word_add)
  also have "\<dots> = sint i + 1"
    using lt ub lb by (intro signed_take_bit_int_eq_self) auto
  finally show ?thesis .
qed

lemma fmt_d_port: "fmt_d DefaultETCDPeerPort = ''2380''"
  by (simp add: fmt_d_def DefaultETCDPeerPort_def digit_char_def)

declare dec_nat.simps [simp del]
declare genInitialClusterArgs_loop.simps [simp del]

lemma peerAddr_fmt_spec:
  "0 \<le> k \<Longrightarrow> peerAddr_fmt sts k svc DefaultETCDPeerPort = spec_peer sts svc (nat k)"
  by (simp add: peerAddr_fmt_def spec_peer_def fmt_d_port) (simp add: fmt_d_def)

lemma join_comma_Cons: "xs \<noteq> [] \<Longrightarrow> join_comma (x # xs) = x @ '','' @ join_comma xs"
  by (cases xs) simp_all

lemma last_index_iff:
  fixes i r :: int32
  assumes "i <s r"
  shows "(i = r - 1) = (sint i + 1 = sint r)"
proof -
  have "(i = r - 1) = (i + 1 = r)" by auto
  also have "\<dots> = (sint (i + 1) = sint r)" by (auto intro: signed_word_eqI)
  also have "\<dots> = (sint i + 1 = sint r)" using assms by (simp add: sint_succ_below)
  finally show ?thesis .
qed

text \<open>The loop invariant: from index \<open>i\<close> on, the loop appends the remaining peers.\<close>

lemma genInitialClusterArgs_loop_spec:
  "0 \<le> sint i \<Longrightarrow>
   genInitialClusterArgs_loop i r sts svc acc =
     acc @ join_comma (map (spec_peer sts svc) [nat (sint i)..<nat (sint r)])"
proof (induction i r sts svc acc rule: genInitialClusterArgs_loop.induct)
  case (1 i r sts svc acc)
  show ?case
  proof (cases "i <s r")
    case False
    then have "sint r \<le> sint i" by (simp add: word_sless_alt)
    then show ?thesis using False
      by (subst genInitialClusterArgs_loop.simps) simp
  next
    case True
    then have lt: "sint i < sint r" by (simp add: word_sless_alt)
    have peer: "peerAddr_fmt sts (sint i) svc DefaultETCDPeerPort = spec_peer sts svc (nat (sint i))"
      using "1.prems" by (rule peerAddr_fmt_spec)
    have upt: "[nat (sint i)..<nat (sint r)] = nat (sint i) # [Suc (nat (sint i))..<nat (sint r)]"
      using lt "1.prems" by (intro upt_conv_Cons) linarith
    show ?thesis
    proof (cases "i = r - 1")
      case last: True
      have "sint i + 1 = sint r" using last last_index_iff [OF True] by simp
      then have e: "[nat (sint i)..<nat (sint r)] = [nat (sint i)]"
        using "1.prems" upt by simp
      have "genInitialClusterArgs_loop i r sts svc acc =
              acc @ peerAddr_fmt sts (sint i) svc DefaultETCDPeerPort"
        using True last by (subst genInitialClusterArgs_loop.simps) (simp add: Let_def)
      then show ?thesis by (simp only: peer e) simp
    next
      case notlast: False
      have ne: "sint i + 1 \<noteq> sint r" using notlast last_index_iff [OF True] by simp
      have s: "sint (i + 1) = sint i + 1" using True by (rule sint_succ_below)
      have nn: "0 \<le> sint (i + 1)" using s "1.prems" by simp
      have ih: "genInitialClusterArgs_loop (i + 1) r sts svc
                  (acc @ peerAddr_fmt sts (sint i) svc DefaultETCDPeerPort @ '','') =
                (acc @ peerAddr_fmt sts (sint i) svc DefaultETCDPeerPort @ '','') @
                  join_comma (map (spec_peer sts svc) [nat (sint (i + 1))..<nat (sint r)])"
        using "1.IH" [OF True refl notlast nn] .
      have idx: "nat (sint (i + 1)) = Suc (nat (sint i))" using s "1.prems" by simp
      have rest: "[Suc (nat (sint i))..<nat (sint r)] \<noteq> []" using lt ne "1.prems" by simp
      have "genInitialClusterArgs_loop i r sts svc acc =
            genInitialClusterArgs_loop (i + 1) r sts svc
              (acc @ peerAddr_fmt sts (sint i) svc DefaultETCDPeerPort @ '','')"
        using True notlast by (subst genInitialClusterArgs_loop.simps) (simp add: Let_def)
      also have "\<dots> = acc @ join_comma (map (spec_peer sts svc) [nat (sint i)..<nat (sint r)])"
        using rest ih [unfolded peer idx] by (simp add: peer upt join_comma_Cons)
      finally show ?thesis .
    qed
  qed
qed

text \<open>
  C7: for every \<open>int32\<close> replica count and all names, \<open>genInitialClusterArgs\<close> returns the
  peers \<open><sts>-<i>=https://<sts>-<i>.<svc>:2380\<close> for \<open>i = 0, \<dots>, n - 1\<close> in index order,
  comma-separated with no trailing comma, where \<open>n\<close> is the replica count read as a
  signed number (no peer at all when it is zero or negative); for \<open>n = 0\<close> the result is
  the empty string.
\<close>

theorem genInitialClusterArgs_spec:
  "genInitialClusterArgs replicas sts svc = spec_initial_cluster (nat (sint replicas)) sts svc \<and>
   genInitialClusterArgs 0 sts svc = []"
  using genInitialClusterArgs_loop_spec [of 0 replicas sts svc "[]"]
        genInitialClusterArgs_loop_spec [of 0 0 sts svc "[]"]
  by (simp add: genInitialClusterArgs_def spec_initial_cluster_def)

theorem genInitialClusterArgs_spec_witness:
  "genInitialClusterArgs 3 ''etcd'' ''etcd-svc'' =
     ''etcd-0=https://etcd-0.etcd-svc:2380,etcd-1=https://etcd-1.etcd-svc:2380,etcd-2=https://etcd-2.etcd-svc:2380''"
  using genInitialClusterArgs_spec [of 3 "''etcd''" "''etcd-svc''"]
  by (simp add: spec_initial_cluster_def spec_peer_def upt_rec dec_nat.simps digit_char_def)

subsection \<open>Sequencing laws\<close>

lemma andThen_ret [simp]: "andThen (ret x) f = f x"
  by (simp add: andThen_def ret_def)

lemma andThen_throw [simp]: "andThen (throw e) f = throw e"
  by (simp add: andThen_def throw_def)

lemma andThen_lift_Inr [simp]: "andThen (lift (Inr x)) f = f x"
  by (simp add: andThen_def lift_def)

lemma andThen_lift_Inl [simp]: "andThen (lift (Inl e)) f = throw e"
  by (simp add: andThen_def lift_def throw_def)

lemma andThen_assoc: "andThen (andThen m f) g = andThen m (\<lambda>x. andThen (f x) g)"
  by (auto simp: andThen_def fun_eq_iff split: prod.splits sum.splits)

lemma andThen_ret_unit [simp]: "andThen m (\<lambda>_::unit. ret ()) = m"
  by (auto simp: andThen_def ret_def fun_eq_iff split: prod.splits sum.splits)

lemma andThen_ret_right [simp]: "andThen m ret = m"
  by (auto simp: andThen_def ret_def fun_eq_iff split: prod.splits sum.splits)

lemma create_check_eq:
  "andThen (mpn_Create mpn obj)
     (\<lambda>err. case err of Some e \<Rightarrow> if \<not> IsAlreadyExists e then throw e else ret () | None \<Rightarrow> ret ())
   = create_or_skip mpn obj"
  by (auto simp: andThen_def mpn_Create_def call_def create_or_skip_def throw_def ret_def fun_eq_iff
      split: option.splits)

lemma root_ns_eq:
  "andThen (call (CallCreateRootNS vc) (\<lambda>h. CreateRootNS mpn h vc)) (\<lambda>_. k)
   = andThen (step_root_namespace mpn vc) (\<lambda>_. k)"
  by (auto simp: andThen_def call_def step_root_namespace_def fun_eq_iff split: sum.splits)

lemma andThen_call:
  "andThen (call ev f) g h = (case f h of Inl e \<Rightarrow> (Inl e, h @ [ev]) | Inr x \<Rightarrow> g x (h @ [ev]))"
  by (simp add: andThen_def call_def split: sum.splits)

subsection \<open>Evaluated runs of the provisioner\<close>

lemmas example_defs = native_example_def vc_example_def cv_example_def etcd_bundle_example_def
  apiserver_bundle_example_def ctrlmgr_bundle_example_def

lemmas run_defs = CreateVirtualCluster_def createPKI_def createPKISecrets_def deployComponent_def
  andThen_def call_def ret_def throw_def lift_def mpn_Create_def Let_def
  complementAPIServerTemplate_def complementETCDTemplate_def complementCtrlMgrTemplate_def
  ServiceTypeClusterIP_def ComponentPollPeriodSec_def RootCASecretName_def
  APIServerCASecretName_def ETCDCASecretName_def FrontProxyCASecretName_def
  ControllerManagerSecretName_def AdminSecretName_def IsAlreadyExists_def

lemmas trace_defs = provisioning_calls_example_def pki_calls_example_def
  deploy_calls_example_def apiserver_service_example_def root_pair_example_def
  etcd_statefulset_example_def

lemma genInitialClusterArgs_one:
  "genInitialClusterArgs 1 ''etcd'' ''etcd'' = ''etcd-0=https://etcd-0.etcd:2380''"
  using genInitialClusterArgs_loop_spec [of 0 1 "''etcd''" "''etcd''" "[]"]
  by (simp add: genInitialClusterArgs_def spec_peer_def dec_nat.simps digit_char_def)

lemma timeout_example: "go_div 120000000000 time_Second = 120"
  by (simp add: go_div_def time_Second_def)

lemma RsaKeyToSecret_sa:
  "RsaKeyToSecret pem_example ServiceAccountSecretName ''vc-a-demo'' key_example =
     Inr sa_secret_example"
  using RsaKeyToSecret_example by (simp add: ServiceAccountSecretName_def)

text \<open>
  Scenario ``happy path, ClusterIP API server'': the service is created first, the PKI is
  minted with the allocated IP, the seven secrets are stored, then etcd (StatefulSet,
  service, wait), the API server (StatefulSet only, wait) and the controller-manager.
\<close>

lemma CreateVirtualCluster_example_run:
  "CreateVirtualCluster native_example vc_example [] = (Inr (), provisioning_calls_example)"
  by (simp add: run_defs example_defs trace_defs genInitialClusterArgs_one timeout_example
      RsaKeyToSecret_sa)

text \<open>Scenario ``idempotent restart'': every object exists already; the run is the same.\<close>

lemma CreateVirtualCluster_retry_run:
  "CreateVirtualCluster native_retry_example vc_example [] = (Inr (), provisioning_calls_example)"
  by (simp add: run_defs example_defs trace_defs genInitialClusterArgs_one timeout_example
      RsaKeyToSecret_sa native_retry_example_def)

lemma CreateVirtualCluster_forbidden_run:
  "CreateVirtualCluster native_forbidden_example vc_example [] =
     (Inl (StatusOther ''forbidden''),
      ([ClientCall VerbGet (ObjClusterVersion ''cv-1''), CallCreateRootNS vc_example,
        ClientCall VerbCreate (ObjService apiserver_service_example)] @ pki_calls_example) @
      ClientCall VerbCreate (ObjStatefulSet etcd_statefulset_example) # [])"
  by (simp add: run_defs example_defs trace_defs genInitialClusterArgs_one timeout_example
      RsaKeyToSecret_sa native_forbidden_example_def)

subsection \<open>The provisioning order\<close>

lemma CreateVirtualCluster_steps:
  assumes cvfound: "client_Get_CV mpn h (vc_ClusterVersionName vc) = Inr cv"
  shows "CreateVirtualCluster mpn vc h =
         seq_steps (provisioning_steps mpn vc cv)
           (h @ [ClientCall VerbGet (ObjClusterVersion (vc_ClusterVersionName vc))])"
proof (cases "cv_APIServer cv")
  case None
  then show ?thesis using cvfound
    by (simp add: CreateVirtualCluster_def andThen_call root_ns_eq provisioning_steps_def
        step_api_service_def Let_def)
next
  case (Some apiserver)
  have ip: "cv_isClusterIP cv =
        (case bdl_Service apiserver of None \<Rightarrow> False
         | Some svc \<Rightarrow> svc_Type svc = ServiceTypeClusterIP)"
    using Some by (simp add: cv_isClusterIP_def)
  note unfold = CreateVirtualCluster_def andThen_call root_ns_eq provisioning_steps_def
    step_api_service_def cv_after_service_def Let_def create_check_eq andThen_assoc
  show ?thesis
  proof (cases "cv_isClusterIP cv")
    case False
    then show ?thesis using cvfound Some ip by (simp add: unfold)
  next
    case True
    show ?thesis
    proof (cases "complementAPIServerTemplate (ToClusterKey mpn vc) apiserver")
      case (Inl e)
      then show ?thesis using cvfound Some ip True by (simp add: unfold)
    next
      case (Inr apiserver')
      then show ?thesis using cvfound Some ip True
        by (cases "bdl_Service apiserver'") (simp_all add: unfold)
    qed
  qed
qed

lemma seq_steps_abort:
  "k < length ss \<Longrightarrow> seq_steps (take k ss) h0 = (Inr (), h1) \<Longrightarrow> (ss ! k) h1 = (Inl e, h2)
   \<Longrightarrow> seq_steps ss h0 = (Inl e, h2)"
proof (induction ss arbitrary: k h0)
  case Nil
  then show ?case by simp
next
  case (Cons s ss)
  show ?case
  proof (cases k)
    case 0
    then show ?thesis using Cons.prems by (simp add: ret_def andThen_def)
  next
    case (Suc j)
    obtain r h' where sh: "s h0 = (r, h')" by (cases "s h0")
    show ?thesis
    proof (cases r)
      case (Inl e')
      then show ?thesis using Cons.prems Suc sh by (simp add: andThen_def)
    next
      case (Inr u)
      then have a: "seq_steps (take j ss) h' = (Inr (), h1)"
        using Cons.prems Suc sh by (simp add: andThen_def)
      have b: "j < length ss" and c: "(ss ! j) h1 = (Inl e, h2)"
        using Cons.prems Suc by simp_all
      have "seq_steps ss h' = (Inl e, h2)" by (rule Cons.IH [OF b a c])
      then show ?thesis using sh Inr by (simp add: andThen_def)
    qed
  qed
qed



text \<open>
  C5: when the ClusterVersion is found, \<open>CreateVirtualCluster\<close> is the six steps run in
  the fixed order (root namespace; API server service, only for ClusterIP; PKI with the
  possibly empty cluster IP; etcd; API server; controller-manager), and a step that
  returns an error ends the run with that error: no later step is executed.
\<close>

theorem CreateVirtualCluster_fixed_order:
  assumes "client_Get_CV mpn h (vc_ClusterVersionName vc) = Inr cv"
  shows "CreateVirtualCluster mpn vc h =
           seq_steps (provisioning_steps mpn vc cv)
             (h @ [ClientCall VerbGet (ObjClusterVersion (vc_ClusterVersionName vc))]) \<and>
         (\<forall>k h1 h2 e.
            k < length (provisioning_steps mpn vc cv) \<longrightarrow>
            seq_steps (take k (provisioning_steps mpn vc cv))
              (h @ [ClientCall VerbGet (ObjClusterVersion (vc_ClusterVersionName vc))]) =
              (Inr (), h1) \<longrightarrow>
            (provisioning_steps mpn vc cv ! k) h1 = (Inl e, h2) \<longrightarrow>
            CreateVirtualCluster mpn vc h = (Inl e, h2))"
  using CreateVirtualCluster_steps [OF assms] seq_steps_abort by metis

theorem CreateVirtualCluster_fixed_order_witness:
  "client_Get_CV native_keygen_fails_example [] (vc_ClusterVersionName vc_example) =
     Inr cv_example \<and>
   CreateVirtualCluster native_keygen_fails_example vc_example [] =
     (Inl (Errorf ''keygen''),
      [ClientCall VerbGet (ObjClusterVersion ''cv-1''), CallCreateRootNS vc_example,
       ClientCall VerbCreate (ObjService apiserver_service_example),
       CallNewCertificateAuthority])"
proof -
  let ?mpn = native_keygen_fails_example
  let ?steps = "provisioning_steps ?mpn vc_example cv_example"
  let ?h1 = "[ClientCall VerbGet (ObjClusterVersion ''cv-1''), CallCreateRootNS vc_example,
              ClientCall VerbCreate (ObjService apiserver_service_example)]"
  have found: "client_Get_CV ?mpn [] (vc_ClusterVersionName vc_example) = Inr cv_example"
    by (simp add: native_keygen_fails_example_def native_example_def)
  have len: "2 < length ?steps"
    by (simp add: provisioning_steps_def Let_def)
  have before: "seq_steps (take 2 ?steps)
                  ([] @ [ClientCall VerbGet (ObjClusterVersion (vc_ClusterVersionName vc_example))])
                = (Inr (), ?h1)"
    by (simp add: provisioning_steps_def step_root_namespace_def step_api_service_def
        cv_isClusterIP_def create_or_skip_def run_defs example_defs trace_defs
        native_keygen_fails_example_def numeral_2_eq_2)
  have pki: "(?steps ! 2) ?h1 = (Inl (Errorf ''keygen''), ?h1 @ [CallNewCertificateAuthority])"
    by (simp add: provisioning_steps_def cv_after_service_def cv_isClusterIP_def run_defs
        example_defs native_keygen_fails_example_def)
  from CreateVirtualCluster_fixed_order [OF found] len before pki
  have "CreateVirtualCluster ?mpn vc_example [] =
          (Inl (Errorf ''keygen''), ?h1 @ [CallNewCertificateAuthority])"
    by blast
  then show ?thesis using found by simp
qed

subsection \<open>Create-or-skip\<close>

lemma create_or_skip_exists_as_created:
  "create_or_skip (exists_as_created mpn) obj = create_or_skip mpn obj"
  by (auto simp: create_or_skip_def exists_as_created_def fun_eq_iff split: option.splits)

lemma exists_as_created_sel [simp]:
  "ToClusterKey (exists_as_created mpn) = ToClusterKey mpn"
  "ProvisionerTimeout (exists_as_created mpn) = ProvisionerTimeout mpn"
  "WaitStatefulSetReady (exists_as_created mpn) = WaitStatefulSetReady mpn"
  "pem (exists_as_created mpn) = pem mpn"
  "client_Get_CV (exists_as_created mpn) = client_Get_CV mpn"
  "CreateRootNS (exists_as_created mpn) = CreateRootNS mpn"
  "GetSvcClusterIP (exists_as_created mpn) = GetSvcClusterIP mpn"
  "GetEtcdServers (exists_as_created mpn) = GetEtcdServers mpn"
  "GetEtcdDomain (exists_as_created mpn) = GetEtcdDomain mpn"
  "GetAPIServerDomain (exists_as_created mpn) = GetAPIServerDomain mpn"
  "NewCertificateAuthority (exists_as_created mpn) = NewCertificateAuthority mpn"
  "NewEtcdServerCertAndKey (exists_as_created mpn) = NewEtcdServerCertAndKey mpn"
  "NewFrontProxyClientCertAndKey (exists_as_created mpn) = NewFrontProxyClientCertAndKey mpn"
  "NewAPIServerCrtAndKey (exists_as_created mpn) = NewAPIServerCrtAndKey mpn"
  "GenerateKubeconfig (exists_as_created mpn) = GenerateKubeconfig mpn"
  "NewServiceAccountSigningKey (exists_as_created mpn) = NewServiceAccountSigningKey mpn"
  by (simp_all add: exists_as_created_def)

lemma deployComponent_exists_as_created:
  "deployComponent (exists_as_created mpn) vc b = deployComponent mpn vc b"
  by (simp add: deployComponent_def create_check_eq create_or_skip_exists_as_created
      cong: if_cong option.case_cong)

lemma createPKISecrets_loop_exists_as_created:
  "createPKISecrets_loop (exists_as_created mpn) srts = createPKISecrets_loop mpn srts"
  by (induction srts) (simp_all add: create_check_eq create_or_skip_exists_as_created)

lemma createPKISecrets_exists_as_created:
  "createPKISecrets (exists_as_created mpn) ca ns = createPKISecrets mpn ca ns"
  by (simp add: createPKISecrets_def createPKISecrets_loop_exists_as_created
      del: createPKISecrets_loop.simps cong: sum.case_cong)

lemma createPKI_exists_as_created:
  "createPKI (exists_as_created mpn) vc cv ip = createPKI mpn vc cv ip"
  by (simp add: createPKI_def createPKISecrets_exists_as_created
      cong: if_cong option.case_cong sum.case_cong prod.case_cong)

lemma CreateVirtualCluster_exists_as_created:
  "CreateVirtualCluster (exists_as_created mpn) vc = CreateVirtualCluster mpn vc"
  by (simp add: CreateVirtualCluster_def create_check_eq create_or_skip_exists_as_created
      createPKI_exists_as_created deployComponent_exists_as_created
      cong: if_cong option.case_cong sum.case_cong)

lemma append_eq_append_Cons:
  assumes "xs @ ys = pre @ c # post"
  shows "(\<exists>us. xs = pre @ c # us \<and> post = us @ ys) \<or>
         (\<exists>us. pre = xs @ us \<and> ys = us @ c # post)"
proof -
  from assms obtain us where
    "(xs = pre @ us \<and> us @ ys = c # post) \<or> (xs @ us = pre \<and> ys = us @ c # post)"
    by (auto simp: append_eq_append_conv2)
  then show ?thesis
  proof
    assume a: "xs = pre @ us \<and> us @ ys = c # post"
    show ?thesis
    proof (cases us)
      case Nil
      then show ?thesis using a by simp
    next
      case (Cons u us')
      then show ?thesis using a by simp
    qed
  next
    assume "xs @ us = pre \<and> ys = us @ c # post"
    then show ?thesis by blast
  qed
qed

lemma cd_ret [intro!, simp]: "create_discipline mpn (ret x)"
  by (simp add: create_discipline_def ret_def)

lemma cd_throw [intro!, simp]: "create_discipline mpn (throw e)"
  by (simp add: create_discipline_def throw_def)

lemma cd_lift [intro!, simp]: "create_discipline mpn (lift r)"
  by (simp add: create_discipline_def lift_def)

lemma cd_call:
  "read_or_create ev \<Longrightarrow> (\<And>obj. ev \<noteq> ClientCall VerbCreate obj) \<Longrightarrow>
   create_discipline mpn (call ev f)"
  by (auto simp: create_discipline_def call_def Cons_eq_append_conv)

lemma cd_create_or_skip [intro!, simp]: "create_discipline mpn (create_or_skip mpn obj)"
  by (auto simp: create_discipline_def create_or_skip_def Cons_eq_append_conv
      split: option.splits)

lemma cd_andThen [intro!]:
  assumes m: "create_discipline mpn m" and f: "\<And>x. create_discipline mpn (f x)"
  shows "create_discipline mpn (andThen m f)"
  unfolding create_discipline_def
proof
  fix h
  obtain r h1 where mh: "m h = (r, h1)" by (cases "m h")
  from m obtain n1 where n1: "h1 = h @ n1" "list_all read_or_create n1"
    and ab1: "\<And>pre obj post e. n1 = pre @ ClientCall VerbCreate obj # post \<Longrightarrow>
           client_Create mpn (h @ pre) obj = Some e \<Longrightarrow> \<not> IsAlreadyExists e \<Longrightarrow>
           post = [] \<and> r = Inl e"
    using mh unfolding create_discipline_def by (metis fst_conv snd_conv)
  show "\<exists>new. snd (andThen m f h) = h @ new \<and> list_all read_or_create new \<and>
        (\<forall>pre obj post e.
           new = pre @ ClientCall VerbCreate obj # post \<longrightarrow>
           client_Create mpn (h @ pre) obj = Some e \<longrightarrow> \<not> IsAlreadyExists e \<longrightarrow>
           post = [] \<and> fst (andThen m f h) = Inl e)"
  proof (cases r)
    case (Inl e0)
    then have "andThen m f h = (Inl e0, h1)" using mh by (simp add: andThen_def)
    then show ?thesis using n1 ab1 Inl by auto
  next
    case (Inr x)
    obtain r2 h2 where fh: "f x h1 = (r2, h2)" by (cases "f x h1")
    from f [of x] obtain n2 where n2: "h2 = h1 @ n2" "list_all read_or_create n2"
      and ab2: "\<And>pre obj post e. n2 = pre @ ClientCall VerbCreate obj # post \<Longrightarrow>
           client_Create mpn (h1 @ pre) obj = Some e \<Longrightarrow> \<not> IsAlreadyExists e \<Longrightarrow>
           post = [] \<and> r2 = Inl e"
      using fh unfolding create_discipline_def by (metis fst_conv snd_conv)
    have res: "andThen m f h = (r2, h2)" using mh Inr fh by (simp add: andThen_def)
    have "post = [] \<and> r2 = Inl e"
      if eq: "n1 @ n2 = pre @ ClientCall VerbCreate obj # post"
        and c: "client_Create mpn (h @ pre) obj = Some e" and ne: "\<not> IsAlreadyExists e"
      for pre obj post e
    proof -
      from append_eq_append_Cons [OF eq] show ?thesis
      proof
        assume "\<exists>us. n1 = pre @ ClientCall VerbCreate obj # us \<and> post = us @ n2"
        then obtain us where "n1 = pre @ ClientCall VerbCreate obj # us" by blast
        from ab1 [OF this c ne] Inr show ?thesis by simp
      next
        assume "\<exists>us. pre = n1 @ us \<and> n2 = us @ ClientCall VerbCreate obj # post"
        then obtain us where us: "pre = n1 @ us" "n2 = us @ ClientCall VerbCreate obj # post"
          by blast
        have "client_Create mpn (h1 @ us) obj = Some e" using c us n1 by simp
        from ab2 [OF us(2) this ne] show ?thesis .
      qed
    qed
    then show ?thesis using res n1 n2 by (intro exI [of _ "n1 @ n2"]) auto
  qed
qed

lemma cd_deployComponent: "create_discipline mpn (deployComponent mpn vc b)"
  by (auto simp: deployComponent_def create_check_eq Let_def intro!: cd_call
      split: option.split)

lemma cd_createPKISecrets_loop: "create_discipline mpn (createPKISecrets_loop mpn srts)"
  by (induction srts) (auto simp: create_check_eq)

lemma cd_createPKISecrets: "create_discipline mpn (createPKISecrets mpn ca ns)"
  by (auto simp: createPKISecrets_def cd_createPKISecrets_loop Let_def
      simp del: createPKISecrets_loop.simps split: sum.split)

lemma cd_createPKI: "create_discipline mpn (createPKI mpn vc cv ip)"
  by (auto simp: createPKI_def cd_createPKISecrets Let_def
      intro!: cd_call split: option.split sum.split prod.split)

lemma cd_CreateVirtualCluster: "create_discipline mpn (CreateVirtualCluster mpn vc)"
  by (auto simp: CreateVirtualCluster_def create_check_eq cd_createPKI cd_deployComponent Let_def
      intro!: cd_call split: option.split)


text \<open>
  C9: provisioning against a super cluster that answers \<open>AlreadyExists\<close> to a create is
  the same run, call for call and with the same result, as against one that answers
  success (so the existing object is left as it is and the next step follows); the run
  issues no update, patch or delete; and a create answered with any other error is the
  last call of the run, whose result is that error.  This covers every create of the run:
  the API server service, the PKI secrets, the component StatefulSets and services.
\<close>

theorem provisioning_create_or_skip:
  "CreateVirtualCluster (exists_as_created mpn) vc h = CreateVirtualCluster mpn vc h \<and>
   (\<exists>new. snd (CreateVirtualCluster mpn vc h) = h @ new \<and> list_all read_or_create new \<and>
      (\<forall>pre obj post e.
         new = pre @ ClientCall VerbCreate obj # post \<longrightarrow>
         client_Create mpn (h @ pre) obj = Some e \<longrightarrow> \<not> IsAlreadyExists e \<longrightarrow>
         post = [] \<and> fst (CreateVirtualCluster mpn vc h) = Inl e))"
  using cd_CreateVirtualCluster [of mpn vc] CreateVirtualCluster_exists_as_created [of mpn vc]
  unfolding create_discipline_def by simp

theorem provisioning_create_or_skip_witness:
  "fst (CreateVirtualCluster native_forbidden_example vc_example []) =
     Inl (StatusOther ''forbidden'') \<and>
   CreateVirtualCluster (exists_as_created native_forbidden_example) vc_example [] =
     CreateVirtualCluster native_forbidden_example vc_example []"
proof -
  let ?mpn = native_forbidden_example
  let ?pre = "[ClientCall VerbGet (ObjClusterVersion ''cv-1''), CallCreateRootNS vc_example,
               ClientCall VerbCreate (ObjService apiserver_service_example)] @ pki_calls_example"
  let ?obj = "ObjStatefulSet etcd_statefulset_example"
  from provisioning_create_or_skip [of ?mpn vc_example "[]"]
  obtain new where same: "CreateVirtualCluster (exists_as_created ?mpn) vc_example [] =
        CreateVirtualCluster ?mpn vc_example []"
    and new: "snd (CreateVirtualCluster ?mpn vc_example []) = [] @ new"
    and abort: "\<And>pre obj post e. new = pre @ ClientCall VerbCreate obj # post \<Longrightarrow>
         client_Create ?mpn ([] @ pre) obj = Some e \<Longrightarrow> \<not> IsAlreadyExists e \<Longrightarrow>
         post = [] \<and> fst (CreateVirtualCluster ?mpn vc_example []) = Inl e"
    by blast
  have shape: "new = ?pre @ ClientCall VerbCreate ?obj # []"
    using new by (simp add: CreateVirtualCluster_forbidden_run)
  have answer: "client_Create ?mpn ([] @ ?pre) ?obj = Some (StatusOther ''forbidden'')"
    by (simp add: native_forbidden_example_def)
  have other: "\<not> IsAlreadyExists (StatusOther ''forbidden'')"
    by (simp add: IsAlreadyExists_def)
  from abort [OF shape answer other] same show ?thesis by simp
qed

subsection \<open>Postconditions of runs\<close>

lemma emits_ret: "Q (Inr x) [] \<Longrightarrow> emits (ret x) h Q"
  by (simp add: emits_def ret_def)

lemma emits_throw: "Q (Inl e) [] \<Longrightarrow> emits (throw e) h Q"
  by (simp add: emits_def throw_def)

lemma emits_call_andThen:
  assumes "\<And>e. f h = Inl e \<Longrightarrow> Q (Inl e) [ev]"
    and "\<And>x. f h = Inr x \<Longrightarrow> emits (g x) (h @ [ev]) (\<lambda>r new. Q r (ev # new))"
  shows "emits (andThen (call ev f) g) h Q"
proof (cases "f h")
  case (Inl e)
  then show ?thesis using assms(1) by (simp add: emits_def andThen_call)
next
  case (Inr x)
  then show ?thesis using assms(2) [OF Inr] by (auto simp: emits_def andThen_call)
qed

lemma emits_call:
  assumes "Q (f h) [ev]"
  shows "emits (call ev f) h Q"
  using assms by (simp add: emits_def call_def)

lemma emits_weaken:
  "emits m h Q' \<Longrightarrow> (\<And>r new. Q' r new \<Longrightarrow> Q r new) \<Longrightarrow> emits m h Q"
  by (auto simp: emits_def)

lemma emits_new_calls:
  "emits m h Q \<Longrightarrow> snd (m h) = h @ new_calls m h \<and> Q (fst (m h)) (new_calls m h)"
  by (auto simp: emits_def new_calls_def)


subsection \<open>The server address of the kubeconfigs\<close>

lemma kubeconfig_calls_append:
  "kubeconfig_calls (xs @ ys) = kubeconfig_calls xs @ kubeconfig_calls ys"
  by (induction xs rule: kubeconfig_calls.induct) simp_all

lemma kubeconfig_calls_client:
  "list_all (\<lambda>ev. \<exists>v obj. ev = ClientCall v obj) evs \<Longrightarrow> kubeconfig_calls evs = []"
  by (induction evs rule: kubeconfig_calls.induct) auto

lemma emits_create_or_skip_andThen:
  assumes "\<And>r. emits (g ()) (h @ [ClientCall VerbCreate obj]) (\<lambda>r new. Q r (ClientCall VerbCreate obj # new))"
    and "\<And>e. Q (Inl e) [ClientCall VerbCreate obj]"
  shows "emits (andThen (create_or_skip mpn obj) g) h Q"
  using assms 
  by (auto simp: emits_def andThen_def create_or_skip_def split: option.splits)

lemma loop_client_only:
  "emits (createPKISecrets_loop mpn srts) h (\<lambda>r new. client_only new)"
proof (induction srts arbitrary: h)
  case Nil
  then show ?case by (simp add: emits_ret client_only_def)
next
  case (Cons srt rest)
  show ?case
    unfolding createPKISecrets_loop.simps create_check_eq
  proof (rule emits_create_or_skip_andThen)
    show "emits (createPKISecrets_loop mpn rest) (h @ [ClientCall VerbCreate (ObjSecret srt)])
           (\<lambda>r new. client_only (ClientCall VerbCreate (ObjSecret srt) # new))"
      by (rule emits_weaken [OF Cons.IH]) (simp add: client_only_def)
  next
    show "\<And>e. client_only [ClientCall VerbCreate (ObjSecret srt)]" by (simp add: client_only_def)
  qed
qed

lemma secrets_client_only:
  "emits (createPKISecrets mpn ca ns) h (\<lambda>r new. kubeconfig_calls new = [])"
proof -
  have "emits (createPKISecrets mpn ca ns) h (\<lambda>r new. client_only new)"
    by (auto simp: createPKISecrets_def Let_def loop_client_only
        simp del: createPKISecrets_loop.simps intro!: emits_throw split: sum.split)
       (simp add: client_only_def)
  then show ?thesis
    by (rule emits_weaken) (simp add: client_only_def kubeconfig_calls_client)
qed

lemmas addr_defs = spec_server_address_def obtained_cluster_ip_def pki_prefix_calls_def Let_def

lemma createPKI_emits:
  "emits (createPKI mpn vc cv isClusterIP) h (kc_post (spec_server_address mpn vc cv isClusterIP h))"
  unfolding createPKI_def Let_def
  apply (rule emits_call_andThen)
  subgoal by (simp add: kc_post_def addr_defs)
  subgoal for x
    apply (cases x; simp only: prod.case)
    subgoal for crt key
      apply (cases key; simp only: option.case)
      subgoal by (simp add: emits_throw kc_post_def)
      subgoal for rootKey
        apply (rule emits_call_andThen)
        subgoal by (simp add: kc_post_def addr_defs)
        apply (rule emits_call_andThen)
        subgoal by (simp add: kc_post_def addr_defs)
        apply (cases isClusterIP)
        subgoal
          apply (cases "cv_APIServer cv")
          subgoal by (simp add: emits_throw kc_post_def)
          subgoal for apiserver
            apply (cases "bdl_Service apiserver")
            subgoal by (simp add: emits_throw kc_post_def)
            subgoal for svc
              apply (simp only: if_True option.case)
              apply (rule emits_call_andThen)
              subgoal by (simp add: kc_post_def addr_defs)
              apply (rule emits_call_andThen)
              subgoal by (simp add: kc_post_def addr_defs)
              apply (rule emits_call_andThen)
              subgoal by (simp add: kc_post_def addr_defs)
              apply (rule emits_call_andThen)
              subgoal by (simp add: kc_post_def addr_defs)
              apply (rule emits_call_andThen)
              subgoal by (simp add: kc_post_def addr_defs)
              apply (rule emits_weaken [OF secrets_client_only])
              apply (simp add: kc_post_def addr_defs)
              done
            done
          done
        subgoal
          apply (simp only: if_False andThen_ret)
          apply (rule emits_call_andThen)
          subgoal by (simp add: kc_post_def addr_defs)
          apply (rule emits_call_andThen)
          subgoal by (simp add: kc_post_def addr_defs)
          apply (rule emits_call_andThen)
          subgoal by (simp add: kc_post_def addr_defs)
          apply (rule emits_call_andThen)
          subgoal by (simp add: kc_post_def addr_defs)
          apply (rule emits_weaken [OF secrets_client_only])
          apply (simp add: kc_post_def addr_defs)
          done
        done
      done
    done
  done


text \<open>
  C6: in every run of \<open>createPKI\<close> the kubeconfigs generated are, in order, the
  controller-manager one and the admin one (the run may end before either), and the
  server address passed to \<open>GenerateKubeconfig\<close> for each is the cluster IP obtained for
  the API server service when that is not empty, and otherwise the API server DNS name
  derived for the root namespace; a successful run generates both.
\<close>

theorem createPKI_kubeconfig_server:
  "snd (createPKI mpn vc cv isClusterIP h) = h @ new_calls (createPKI mpn vc cv isClusterIP) h \<and>
   (let addr = spec_server_address mpn vc cv isClusterIP h;
        kc = kubeconfig_calls (new_calls (createPKI mpn vc cv isClusterIP) h)
    in (kc = [] \<or> kc = [(''system:kube-controller-manager'', addr)] \<or>
        kc = [(''system:kube-controller-manager'', addr), (''admin'', addr)]) \<and>
       (fst (createPKI mpn vc cv isClusterIP h) = Inr () \<longrightarrow>
        kc = [(''system:kube-controller-manager'', addr), (''admin'', addr)]))"
  using emits_new_calls [OF createPKI_emits [of mpn vc cv isClusterIP h]]
  by (simp add: kc_post_def Let_def)

lemma createPKI_example_ok:
  "fst (createPKI native_example vc_example cv_example True []) = Inr ()"
  "fst (createPKI native_example vc_example cv_nodeport_example False []) = Inr ()"
  by (simp_all add: run_defs example_defs cv_nodeport_example_def RsaKeyToSecret_sa)

lemma spec_server_address_example:
  "spec_server_address native_example vc_example cv_example True [] = ''10.0.0.7''"
  "spec_server_address native_example vc_example cv_nodeport_example False [] =
     ''apiserver-svc.vc-a-demo''"
  by (simp_all add: addr_defs example_defs cv_nodeport_example_def)

theorem createPKI_kubeconfig_server_witness:
  "kubeconfig_calls (new_calls (createPKI native_example vc_example cv_example True) []) =
     [(''system:kube-controller-manager'', ''10.0.0.7''), (''admin'', ''10.0.0.7'')] \<and>
   kubeconfig_calls (new_calls (createPKI native_example vc_example cv_nodeport_example False) []) =
     [(''system:kube-controller-manager'', ''apiserver-svc.vc-a-demo''),
      (''admin'', ''apiserver-svc.vc-a-demo'')]"
  using createPKI_kubeconfig_server [of native_example vc_example cv_example True "[]"]
        createPKI_kubeconfig_server [of native_example vc_example cv_nodeport_example False "[]"]
  by (simp add: createPKI_example_ok spec_server_address_example Let_def)

subsection \<open>The patroller\<close>

lemma andThen_call_val:
  "andThen (call ev (\<lambda>h. Inr (f h))) g h = g (f h) (h @ [ev])"
  by (simp add: andThen_def call_def)

lemmas gc_defs = confirmed_orphan_def cached_lookup_def fresh_lookup_def not_found_def
  other_uid_def

lemma shouldBeGarbageCollected_emits:
  "emits (shouldBeGarbageCollected c ns) h (gc_post c ns h)"
  by (auto simp: emits_def shouldBeGarbageCollected_def Let_def andThen_call_val ret_def
      gc_post_def gc_defs split: sum.splits)

lemma deleteNamespace_emits:
  "emits (deleteNamespace c ns) h
     (\<lambda>r new. r = Inr () \<and> namespace_deletes new = [guarded_delete ns] \<and> requeues new = [])"
  by (simp add: emits_def deleteNamespace_def Let_def andThen_call_val)
     (simp add: ret_def call_def guarded_delete_def NewUIDPreconditions_def
        split: option.split)

lemma AddFunc_emits:
  "emits (AddFunc c vObj) h
     (\<lambda>r new. r = Inr () \<and> namespace_deletes new = [] \<and>
                requeues new = [(co_OwnerCluster vObj, co_Object vObj)])"
  by (simp add: emits_def AddFunc_def andThen_call_val)
     (simp add: ret_def call_def split: option.split)

lemma namespace_deletes_append:
  "namespace_deletes (xs @ ys) = namespace_deletes xs @ namespace_deletes ys"
  by (induction xs rule: namespace_deletes.induct) simp_all

lemma requeues_append: "requeues (xs @ ys) = requeues xs @ requeues ys"
  by (induction xs rule: requeues.induct) simp_all

lemma emits_andThen:
  assumes m: "emits m h P"
    and f: "\<And>x new. m h = (Inr x, h @ new) \<Longrightarrow> P (Inr x) new \<Longrightarrow>
              emits (f x) (h @ new) (\<lambda>r new'. Q r (new @ new'))"
    and e: "\<And>e new. m h = (Inl e, h @ new) \<Longrightarrow> P (Inl e) new \<Longrightarrow> Q (Inl e) new"
  shows "emits (andThen m f) h Q"
proof -
  from m obtain new where new: "snd (m h) = h @ new" "P (fst (m h)) new"
    by (auto simp: emits_def)
  show ?thesis
  proof (cases "fst (m h)")
    case (Inl er)
    then have mh: "m h = (Inl er, h @ new)" using new by (metis prod.collapse)
    then show ?thesis using e [OF mh] new Inl by (auto simp: emits_def andThen_def)
  next
    case (Inr x)
    then have mh: "m h = (Inr x, h @ new)" using new by (metis prod.collapse)
    from f [OF mh] new Inr show ?thesis using mh by (auto simp: emits_def andThen_def)
  qed
qed

lemma emits_call_val_andThen:
  "emits (g (f h)) (h @ [ev]) (\<lambda>r new. Q r (ev # new)) \<Longrightarrow>
   emits (andThen (call ev (\<lambda>h. Inr (f h))) g) h Q"
  by (auto simp: emits_def andThen_call_val)

lemma UpdateFunc_emits:
  "emits (UpdateFunc c vObj pObj) h (update_post c vObj pObj h)"
  unfolding UpdateFunc_def Let_def
proof (rule emits_andThen [OF shouldBeGarbageCollected_emits], goal_cases)
  case (1 gc new)
  let ?p = "co_Object pObj" and ?v = "co_Object vObj"
  let ?del = "gc \<or> lookup_str (ns_Annotations ?p) (LabelUID c) \<noteq> ns_UID ?v"
  have quiet: "namespace_deletes new = []" "requeues new = []"
    using 1(2) by (simp_all add: gc_post_def)
  have post: "update_post c vObj pObj h r (new @ new') =
        (r = Inr () \<and>
         namespace_deletes new' = (if ?del then [guarded_delete ?p] else []) \<and>
         requeues new' =
           (if \<not> ?del \<and> metadata_drift c vObj pObj (h @ new)
            then [(co_OwnerCluster vObj, ?v)] else []))" for r new'
    using 1(1) quiet
    by (simp add: update_post_def Let_def namespace_deletes_append requeues_append)
  show ?case
  proof (cases ?del)
    case True
    then show ?thesis
      by (simp only: post if_True) (auto intro!: emits_weaken [OF deleteNamespace_emits])
  next
    case False
    show ?thesis
    proof (cases "util_GetVirtualClusterObject c (h @ new) (co_OwnerCluster vObj)")
      case (Inl err)
      then show ?thesis using False
        by (simp only: post if_False)
           (auto intro!: emits_call_val_andThen emits_ret simp: metadata_drift_def)
    next
      case (Inr vc)
      then show ?thesis using False
        by (simp only: post if_False, cases "CheckNamespaceEquality c vc ?p ?v")
           (auto intro!: emits_call_val_andThen emits_ret emits_weaken [OF AddFunc_emits]
              simp: metadata_drift_def)
    qed
  qed
next
  case (2 e new)
  then show ?case by (simp add: gc_post_def)
qed

lemma gc_then_delete_emits:
  "emits (andThen (shouldBeGarbageCollected c p) (\<lambda>gc. if gc then deleteNamespace c p else ret ()))
     h (delete_post p)"
proof (rule emits_andThen [OF shouldBeGarbageCollected_emits], goal_cases)
  case (1 gc new)
  then show ?case
    by (cases gc)
       (auto intro!: emits_weaken [OF deleteNamespace_emits] emits_ret
          simp: delete_post_def gc_post_def namespace_deletes_append)
next
  case (2 e new)
  then show ?case by (simp add: gc_post_def)
qed

lemma DeleteFunc_emits:
  "emits (DeleteFunc c known pObj) h (delete_post (co_Object pObj))"
  unfolding DeleteFunc_def Let_def
  by (auto intro!: gc_then_delete_emits emits_weaken [OF deleteNamespace_emits]
      simp: delete_post_def)


lemmas patrol_defs = patrol_example_def patrol_stale_example_def patrol_drift_example_def
  patrol_gone_example_def pns_example_def vns_example_def pobj_example_def vobj_example_def
  vc_example_def

lemmas patrol_run_defs = shouldBeGarbageCollected_def deleteNamespace_def AddFunc_def
  UpdateFunc_def Let_def andThen_def call_def ret_def lookup_str_def IsNotFound_def
  NewUIDPreconditions_def

text \<open>
  C1, as claimed, fails: with a cache that still holds the VirtualCluster under the UID of
  the annotation, while the authoritative store no longer has it, a fresh lookup returns
  NotFound, yet \<open>shouldBeGarbageCollected\<close> returns false, without asking for it.
\<close>

theorem shouldBeGarbageCollected_stale_cache_counterexample:
  "lookup_str (ns_Annotations pns_example) (LabelVCName patrol_stale_example) = ''demo'' \<and>
   lookup_str (ns_Annotations pns_example) (LabelVCNamespace patrol_stale_example) = ''vc-a'' \<and>
   fresh_says_orphan patrol_stale_example pns_example [] \<and>
   shouldBeGarbageCollected patrol_stale_example pns_example [] =
     (Inr False, [CallListerGetVC ''vc-a'' ''demo''])"
  by (simp add: patrol_run_defs patrol_defs fresh_says_orphan_def gc_defs)

text \<open>
  C1 (amended): for a namespace whose \<open>vc.name\<close> and \<open>vc.namespace\<close> annotations are not
  empty, \<open>shouldBeGarbageCollected\<close> returns true if and only if the cached lookup
  returns NotFound and a fresh lookup returns NotFound too, or the cached lookup returns
  a VirtualCluster whose UID differs from the \<open>vc.uid\<close> annotation and a fresh lookup
  returns one whose UID differs too.  With an empty annotation it returns false and looks
  nothing up.  Whenever it returns true, the fresh lookup has been made, and it returned
  NotFound or a VirtualCluster of another UID.
\<close>

theorem shouldBeGarbageCollected_confirmed_orphan:
  "(lookup_str (ns_Annotations ns) (LabelVCName c) \<noteq> [] \<and>
    lookup_str (ns_Annotations ns) (LabelVCNamespace c) \<noteq> [] \<longrightarrow>
      fst (shouldBeGarbageCollected c ns h) = Inr (confirmed_orphan c ns h)) \<and>
   (lookup_str (ns_Annotations ns) (LabelVCName c) = [] \<or>
    lookup_str (ns_Annotations ns) (LabelVCNamespace c) = [] \<longrightarrow>
      shouldBeGarbageCollected c ns h = (Inr False, h)) \<and>
   (fst (shouldBeGarbageCollected c ns h) = Inr True \<longrightarrow>
      fresh_says_orphan c ns h \<and>
      list_ex is_fresh_lookup (new_calls (shouldBeGarbageCollected c ns) h))"
proof -
  from emits_new_calls [OF shouldBeGarbageCollected_emits [of c ns h]]
  have post: "gc_post c ns h (fst (shouldBeGarbageCollected c ns h))
                (new_calls (shouldBeGarbageCollected c ns) h)"
    by simp
  have empty: "shouldBeGarbageCollected c ns h = (Inr False, h)"
    if "lookup_str (ns_Annotations ns) (LabelVCName c) = [] \<or>
        lookup_str (ns_Annotations ns) (LabelVCNamespace c) = []"
    using that by (auto simp: shouldBeGarbageCollected_def Let_def ret_def)
  have sound: "confirmed_orphan c ns h \<Longrightarrow> fresh_says_orphan c ns h"
    by (auto simp: confirmed_orphan_def fresh_says_orphan_def)
  show ?thesis using post empty sound by (auto simp: gc_post_def)
qed

theorem shouldBeGarbageCollected_confirmed_orphan_witness:
  "fst (shouldBeGarbageCollected patrol_gone_example pns_example []) = Inr True \<and>
   fresh_says_orphan patrol_gone_example pns_example [] \<and>
   list_ex is_fresh_lookup (new_calls (shouldBeGarbageCollected patrol_gone_example pns_example) [])"
proof -
  have names: "lookup_str (ns_Annotations pns_example) (LabelVCName patrol_gone_example) \<noteq> [] \<and>
      lookup_str (ns_Annotations pns_example) (LabelVCNamespace patrol_gone_example) \<noteq> []"
    by (simp add: patrol_defs lookup_str_def)
  have orphan: "confirmed_orphan patrol_gone_example pns_example []"
    by (simp add: gc_defs patrol_defs lookup_str_def IsNotFound_def)
  from shouldBeGarbageCollected_confirmed_orphan [of pns_example patrol_gone_example "[]"]
    names orphan
  show ?thesis by simp
qed

text \<open>
  C2, as claimed, fails for metadata drift: with a VirtualCluster that exists under the
  recorded UID and a tenant namespace of the recorded UID, detected drift makes the
  handler re-queue the tenant namespace; the super-cluster namespace is not deleted.
\<close>

theorem UpdateFunc_metadata_drift_counterexample:
  "metadata_drift patrol_drift_example vobj_example pobj_example
     [CallListerGetVC ''vc-a'' ''demo''] \<and>
   UpdateFunc patrol_drift_example vobj_example pobj_example [] =
     (Inr (), [CallListerGetVC ''vc-a'' ''demo'', CallGetVirtualClusterObject ''vc-a-demo'',
               CallRequeueObject ''vc-a-demo'' vns_example,
               CallMetricInc ''RequeuedTenantNamespaces'']) \<and>
   namespace_deletes
     [CallListerGetVC ''vc-a'' ''demo'', CallGetVirtualClusterObject ''vc-a-demo'',
      CallRequeueObject ''vc-a-demo'' vns_example, CallMetricInc ''RequeuedTenantNamespaces''] = []"
  by (simp add: patrol_run_defs patrol_defs metadata_drift_def)

text \<open>
  C2 (amended): for a tenant namespace and the super-cluster namespace of the same key,
  the update handler first runs the garbage-collection check; it deletes the
  super-cluster namespace (one delete, guarded by the namespace's UID) exactly when that
  check returns true or the tenant namespace's UID differs from the UID recorded in the
  super-cluster namespace's annotation, and then does nothing else.  Otherwise it deletes
  nothing, and when the metadata drifts it re-queues the tenant namespace.
\<close>

theorem UpdateFunc_delete_or_requeue:
  "snd (UpdateFunc c vObj pObj h) = h @ new_calls (UpdateFunc c vObj pObj) h \<and>
   (let p = co_Object pObj; v = co_Object vObj;
        del = (fst (shouldBeGarbageCollected c p h) = Inr True \<or>
               lookup_str (ns_Annotations p) (LabelUID c) \<noteq> ns_UID v)
    in fst (UpdateFunc c vObj pObj h) = Inr () \<and>
       namespace_deletes (new_calls (UpdateFunc c vObj pObj) h) =
         (if del then [guarded_delete p] else []) \<and>
       requeues (new_calls (UpdateFunc c vObj pObj) h) =
         (if \<not> del \<and> metadata_drift c vObj pObj (snd (shouldBeGarbageCollected c p h))
          then [(co_OwnerCluster vObj, v)] else []))"
  using emits_new_calls [OF UpdateFunc_emits [of c vObj pObj h]]
  by (simp add: update_post_def Let_def)

theorem UpdateFunc_delete_or_requeue_witness:
  "namespace_deletes (new_calls (UpdateFunc patrol_gone_example vobj_example pobj_example) []) =
     [(''vc-a-demo-ns1'', \<lparr> do_Preconditions = Some \<lparr> pre_UID = Some ''p-uid-1'' \<rparr> \<rparr>)] \<and>
   requeues (new_calls (UpdateFunc patrol_gone_example vobj_example pobj_example) []) = [] \<and>
   namespace_deletes (new_calls (UpdateFunc patrol_drift_example vobj_example pobj_example) []) = [] \<and>
   requeues (new_calls (UpdateFunc patrol_drift_example vobj_example pobj_example) []) =
     [(''vc-a-demo'', vns_example)]"
proof -
  have gone: "shouldBeGarbageCollected patrol_gone_example (co_Object pobj_example) [] =
                (Inr True, [CallListerGetVC ''vc-a'' ''demo'', CallClientGetVC ''vc-a'' ''demo''])"
    by (simp add: patrol_run_defs patrol_defs)
  have kept: "shouldBeGarbageCollected patrol_drift_example (co_Object pobj_example) [] =
                (Inr False, [CallListerGetVC ''vc-a'' ''demo''])"
    by (simp add: patrol_run_defs patrol_defs)
  have uid: "lookup_str (ns_Annotations (co_Object pobj_example)) (LabelUID patrol_drift_example) =
               ns_UID (co_Object vobj_example)"
    by (simp add: patrol_defs lookup_str_def)
  have drift: "metadata_drift patrol_drift_example vobj_example pobj_example
                 [CallListerGetVC ''vc-a'' ''demo'']"
    by (simp add: metadata_drift_def patrol_defs)
  have guard: "guarded_delete (co_Object pobj_example) =
      (''vc-a-demo-ns1'', \<lparr> do_Preconditions = Some \<lparr> pre_UID = Some ''p-uid-1'' \<rparr> \<rparr>)"
    by (simp add: guarded_delete_def patrol_defs)
  have vobj: "co_OwnerCluster vobj_example = ''vc-a-demo''" "co_Object vobj_example = vns_example"
    by (simp_all add: vobj_example_def)
  from UpdateFunc_delete_or_requeue [of patrol_gone_example vobj_example pobj_example "[]"]
       UpdateFunc_delete_or_requeue [of patrol_drift_example vobj_example pobj_example "[]"]
  show ?thesis by (simp add: Let_def gone kept uid drift guard vobj)
qed

text \<open>
  C10: \<open>deleteNamespace\<close> issues exactly one delete, for the name of the namespace it was
  given and with that namespace's UID as precondition; every delete issued by the update
  and delete handlers is such a delete for the super-cluster namespace the patroller
  observed.  Hence a store that honours UID preconditions, holding under that name a
  namespace of another UID (deleted and created again since the observation), refuses the
  delete and is left unchanged.
\<close>

theorem deleteNamespace_uid_precondition:
  "namespace_deletes (new_calls (deleteNamespace c ns) h) = [guarded_delete ns] \<and>
   set (namespace_deletes (new_calls (UpdateFunc c vObj pObj) h)) \<subseteq>
     {guarded_delete (co_Object pObj)} \<and>
   set (namespace_deletes (new_calls (DeleteFunc c known pObj) h)) \<subseteq>
     {guarded_delete (co_Object pObj)} \<and>
   (\<forall>srv store cur.
      honours_uid_precondition srv \<longrightarrow> store (ns_Name ns) = Some cur \<longrightarrow>
      ns_UID cur \<noteq> ns_UID ns \<longrightarrow>
      srv store (fst (guarded_delete ns)) (snd (guarded_delete ns)) = (Some StatusConflict, store))"
proof -
  have one: "namespace_deletes (new_calls (deleteNamespace c ns) h) = [guarded_delete ns]"
    using emits_new_calls [OF deleteNamespace_emits [of c ns h]] by simp
  have upd: "set (namespace_deletes (new_calls (UpdateFunc c vObj pObj) h)) \<subseteq>
               {guarded_delete (co_Object pObj)}"
    using emits_new_calls [OF UpdateFunc_emits [of c vObj pObj h]]
    by (auto simp: update_post_def Let_def split: if_splits)
  have del: "set (namespace_deletes (new_calls (DeleteFunc c known pObj) h)) \<subseteq>
               {guarded_delete (co_Object pObj)}"
    using emits_new_calls [OF DeleteFunc_emits [of c known pObj h]]
    by (auto simp: delete_post_def)
  have refused: "srv store (fst (guarded_delete ns)) (snd (guarded_delete ns)) =
                   (Some StatusConflict, store)"
    if "honours_uid_precondition srv" "store (ns_Name ns) = Some cur" "ns_UID cur \<noteq> ns_UID ns"
    for srv store cur
    using that unfolding honours_uid_precondition_def guarded_delete_def
    by (metis fst_conv snd_conv)
  show ?thesis using one upd del refused by blast
qed

lemma apiserver_delete_example_honours: "honours_uid_precondition apiserver_delete_example"
  by (simp add: honours_uid_precondition_def apiserver_delete_example_def)

theorem deleteNamespace_uid_precondition_witness:
  "namespace_deletes (new_calls (deleteNamespace patrol_example pns_example) []) =
     [(''vc-a-demo-ns1'', \<lparr> do_Preconditions = Some \<lparr> pre_UID = Some ''p-uid-1'' \<rparr> \<rparr>)] \<and>
   apiserver_delete_example store_recreated_example ''vc-a-demo-ns1''
     \<lparr> do_Preconditions = Some \<lparr> pre_UID = Some ''p-uid-1'' \<rparr> \<rparr> =
     (Some StatusConflict, store_recreated_example)"
proof -
  have guard: "guarded_delete pns_example =
      (''vc-a-demo-ns1'', \<lparr> do_Preconditions = Some \<lparr> pre_UID = Some ''p-uid-1'' \<rparr> \<rparr>)"
    by (simp add: guarded_delete_def pns_example_def)
  have held: "store_recreated_example (ns_Name pns_example) =
                Some (pns_example \<lparr> ns_UID := ''p-uid-2'' \<rparr>)"
    by (simp add: store_recreated_example_def pns_example_def)
  have other: "ns_UID (pns_example \<lparr> ns_UID := ''p-uid-2'' \<rparr>) \<noteq> ns_UID pns_example"
    by (simp add: pns_example_def)
  from deleteNamespace_uid_precondition [of patrol_example pns_example "[]"]
  have "namespace_deletes (new_calls (deleteNamespace patrol_example pns_example) []) =
          [guarded_delete pns_example]"
    and "apiserver_delete_example store_recreated_example (fst (guarded_delete pns_example))
           (snd (guarded_delete pns_example)) = (Some StatusConflict, store_recreated_example)"
    using apiserver_delete_example_honours held other by blast+
  then show ?thesis by (simp add: guard)
qed

subsection \<open>The scheduler's reconciler\<close>





















lemmas sched_defs = sched_example_def sched_quota_gone_example_def sched_no_capacity_example_def
  sched_release_fails_example_def sched_ensure_fails_example_def req_example_def tenant_ns_example_def slice_example_def

lemmas sched_run_defs = Reconcile_def updateSchedulingResult_def update_attempt_def
  andThen_def call_def ret_def throw_def Let_def sched_key_def event_ref_def NewNamespace_def
  NewPlacement_def zero_quota_def IsNotFound_def IsConflict_def EventTypeNormal_def
  DefaultBackoff_Steps_def

lemma json_example_placements: "json_example [(''c1'', 3), (''c2'', 1)] = ''{c1:3,c2:1}''"
  by (simp add: json_example_def dec_nat.simps digit_char_def)

lemma RetryOnConflict_pos:
  "0 < n \<Longrightarrow>
   RetryOnConflict n fn clone lastErr =
     andThen (fn clone)
       (\<lambda>(err, clone').
          case err of
            None \<Rightarrow> ret None
          | Some e \<Rightarrow>
              if IsConflict e then RetryOnConflict (n - 1) fn clone' (Some e)
              else ret (Some e))"
  by (cases n) (simp_all cong: if_cong option.case_cong)







text \<open>Scenario ``scheduling fit'': the placements are reserved, then published, then announced.\<close>

lemma Reconcile_schedule_run:
  "Reconcile sched_example req_example [] =
     (Inr \<lparr> RequeueAfter = 0 \<rparr>,
      prologue_example @
      [CallScheduleNamespace candidate_example,
       CallGetClusterClient ''vc-a-demo'',
       CallNamespaceUpdate
         (tenant_ns_example
            \<lparr> ns_Annotations := [''scheduled.placements'' \<mapsto> ''{c1:3,c2:1}''] \<rparr>),
       CallEventf ''vc-a-demo'' tenant_ref_example ''Normal'' ''Scheduled''])"
  by (simp add: sched_run_defs sched_defs prologue_example_def candidate_example_def
      tenant_ref_example_def RetryOnConflict_pos json_example_placements)






end
